theory Spec2Isabelle
  imports Complex_Main "HOL-Library.Log_Nat"
begin

section \<open>Conventions of the embedding\<close>

text \<open>
  The repository is a Python trading bot made of three modules: \<^verbatim>\<open>time_sync_config.py\<close>
  (the clock synchronisation manager), \<^verbatim>\<open>binance_main.py\<close> (the trader with its retry
  wrapper, signal, order sizing and stop-loss bookkeeping) and
  \<^verbatim>\<open>binance_take_profit.py\<close> (the take-profit monitor).

  Python \<^verbatim>\<open>float\<close> values are embedded as rationals (\<^typ>\<open>rat\<close>). With one
  exception the arithmetic on them is exact: rounding error of binary floating point is not
  modelled, and a statement about prices and quantities is a statement about the exact
  arithmetic the source code writes down. The exception is the quantity of the partial
  close in \<^verbatim>\<open>take_profit_half_position\<close>, which goes to the exchange as it is computed,
  with no formatting in between: there the division and the multiplication round their
  result to the nearest double, as the interpreter does.
  Python \<^verbatim>\<open>int\<close> values are \<^typ>\<open>int\<close>. An exception is a value; a function that
  can raise returns a sum whose left injection carries the exception. Calls to the
  exchange and readings of the clock are inputs of the model: an environment supplies what
  each call returns or raises.
\<close>

section \<open>Exceptions and the retry wrapper of the trader\<close>

text \<open>
  An exception object as \<^verbatim>\<open>safe_request\<close> inspects it: \<^verbatim>\<open>hasattr(e, 'code')\<close> and
  \<^verbatim>\<open>e.code\<close> become an optional integer, \<^verbatim>\<open>str(e)\<close> the message.
\<close>

datatype exn = Exn (exn_code: "int option") (exn_msg: string)

text \<open>
  \<^verbatim>\<open>Exception("...")\<close> of the last line of \<^verbatim>\<open>safe_request\<close>: a plain exception, with
  no \<^verbatim>\<open>code\<close> attribute. Its message is six CJK characters (U+672A U+77E5 U+8BF7 U+6C42
  U+9519 U+8BEF, "unknown request error"), written here as their UTF-8 bytes.
\<close>

definition unknown_request_error :: exn where
  "unknown_request_error =
     Exn None [CHR 0xE6, CHR 0x9C, CHR 0xAA, CHR 0xE7, CHR 0x9F, CHR 0xA5,
               CHR 0xE8, CHR 0xAF, CHR 0xB7, CHR 0xE6, CHR 0xB1, CHR 0x82,
               CHR 0xE9, CHR 0x94, CHR 0x99, CHR 0xE8, CHR 0xAF, CHR 0xAF]"

text \<open>What one call of \<^verbatim>\<open>request_func(*args, **kwargs)\<close> does: return a value or raise.\<close>

datatype 'a outcome = Returns 'a | Raises exn

text \<open>
  The observable effects of one run of \<^verbatim>\<open>safe_request\<close>: how many times
  \<^verbatim>\<open>request_func\<close> was called, how many times \<^verbatim>\<open>time_sync_manager.sync_time()\<close> was
  called, how many times \<^verbatim>\<open>time.sleep(self.retry_delay)\<close> was called, and the value of the
  local variable \<^verbatim>\<open>last_exception\<close> when the function is left.
\<close>

record effects =
  attempts :: nat
  resyncs :: nat
  sleeps :: nat
  last_exception :: "exn option"

definition no_effects :: effects where
  "no_effects = \<lparr>attempts = 0, resyncs = 0, sleeps = 0, last_exception = None\<rparr>"

text \<open>The error codes that are re-raised at once: the list \<^verbatim>\<open>[-4059]\<close> of the source.\<close>

definition no_retry_codes :: "int list" where
  "no_retry_codes = [- 4059]"

definition is_no_retry :: "exn \<Rightarrow> bool" where
  "is_no_retry e = (case exn_code e of None \<Rightarrow> False | Some c \<Rightarrow> c \<in> set no_retry_codes)"

definition is_time_sync_error :: "exn \<Rightarrow> bool" where
  "is_time_sync_error e = (exn_code e = Some 1021)"

text \<open>
  The body of \<^verbatim>\<open>for attempt in range(self.max_retries)\<close>, by recursion on the attempt
  numbers still to run. \<^verbatim>\<open>request_func\<close> is given as the outcome of its call in each
  attempt. When the numbers are used up the statement after the loop runs:
  \<^verbatim>\<open>raise last_exception if last_exception else Exception(...)\<close>.
\<close>

fun attempt_loop :: "(nat \<Rightarrow> 'a outcome) \<Rightarrow> nat list \<Rightarrow> effects \<Rightarrow> (exn + 'a) \<times> effects" where
  "attempt_loop request_func [] eff =
     (case last_exception eff of
        Some e \<Rightarrow> (Inl e, eff)
      | None \<Rightarrow> (Inl unknown_request_error, eff))"
| "attempt_loop request_func (attempt # rest) eff =
     (let eff1 = eff\<lparr>attempts := attempts eff + 1\<rparr> in
      case request_func attempt of
        Returns v \<Rightarrow> (Inr v, eff1)
      | Raises e \<Rightarrow>
          if is_no_retry e then (Inl e, eff1)
          else if is_time_sync_error e then
            attempt_loop request_func rest
              (eff1\<lparr>resyncs := resyncs eff1 + 1, sleeps := sleeps eff1 + 1\<rparr>)
          else
            attempt_loop request_func rest
              (eff1\<lparr>last_exception := Some e, sleeps := sleeps eff1 + 1\<rparr>))"

text \<open>The fields of \<^verbatim>\<open>BinanceFuturesTrader\<close> the retry wrapper reads.\<close>

record trader_config =
  max_retries :: nat
  retry_delay :: nat

text \<open>The values \<^verbatim>\<open>__init__\<close> assigns: \<^verbatim>\<open>self.max_retries = 3\<close>, \<^verbatim>\<open>self.retry_delay = 1\<close>.\<close>

definition init_config :: trader_config where
  "init_config = \<lparr>max_retries = 3, retry_delay = 1\<rparr>"

definition safe_request :: "trader_config \<Rightarrow> (nat \<Rightarrow> 'a outcome) \<Rightarrow> (exn + 'a) \<times> effects" where
  "safe_request self request_func =
     attempt_loop request_func [0..<max_retries self] no_effects"

text \<open>
  A transient failure: one that is neither re-raised at once nor a clock-skew error, so
  that it is recorded in \<^verbatim>\<open>last_exception\<close> and followed by a sleep.
\<close>

definition transient :: "exn \<Rightarrow> bool" where
  "transient e = (\<not> is_no_retry e \<and> \<not> is_time_sync_error e)"


section \<open>Numbers as Python computes them\<close>

text \<open>The error of the interpreter that the entry signal can run into.\<close>

datatype py_error = ZeroDivisionError

text \<open>
  \<^verbatim>\<open>round(x)\<close> with one argument: the nearest integer, a tie going to the even
  neighbour.
\<close>

definition py_round :: "rat \<Rightarrow> int" where
  "py_round x =
     (let f = \<lfloor>x\<rfloor>; d = x - of_int f in
      if d < 1 / 2 then f
      else if 1 / 2 < d then f + 1
      else if even f then f else f + 1)"

text \<open>
  A double has 53 significant bits. \<open>binade x\<close> is the binary exponent of a non-zero \<open>x\<close>,
  the integer \<open>e\<close> with \<open>2\<^sup>e \<le> |x| < 2\<^sup>e\<^sup>+\<^sup>1\<close>; it is found from the bit lengths of the
  numerator and the denominator. \<open>round_double x\<close> is the double nearest to \<open>x\<close>, a tie going
  to the even significand (the rounding of IEEE 754 arithmetic). The range of the exponent
  is not bounded here: overflow and subnormal numbers, beyond \<open>10\<^sup>3\<^sup>0\<^sup>8\<close> and below
  \<open>10\<^sup>-\<^sup>3\<^sup>0\<^sup>7\<close>, are left out.
\<close>

definition binade :: "rat \<Rightarrow> int" where
  "binade x =
     (let (a, b) = quotient_of \<bar>x\<bar>;
          d = int (floorlog 2 (nat a)) - int (floorlog 2 (nat b))
      in if \<bar>x\<bar> < power_int 2 d then d - 1 else d)"

definition round_double :: "rat \<Rightarrow> rat" where
  "round_double x =
     (if x = 0 then 0
      else (let s = 52 - binade x in of_int (py_round (x * power_int 2 s)) / power_int 2 s))"

text \<open>
  \<^verbatim>\<open>a / b\<close> and \<^verbatim>\<open>a * b\<close> on floats, for a non-zero divisor: the exact result rounded
  to a double.
\<close>

definition float_truediv :: "rat \<Rightarrow> rat \<Rightarrow> rat" where
  "float_truediv a b = round_double (a / b)"

definition float_mul :: "rat \<Rightarrow> rat \<Rightarrow> rat" where
  "float_mul a b = round_double (a * b)"

text \<open>\<^verbatim>\<open>int(x)\<close> of a float: truncation towards zero.\<close>

definition py_int :: "rat \<Rightarrow> int" where
  "py_int x = (if 0 \<le> x then \<lfloor>x\<rfloor> else \<lceil>x\<rceil>)"

text \<open>
  \<^verbatim>\<open>round(x, ndigits)\<close>: the nearest multiple of \<open>10\<close> to the power \<open>-ndigits\<close>, ties
  to even; a negative \<^verbatim>\<open>ndigits\<close> rounds to tens, hundreds and so on.
\<close>

definition py_round_digits :: "rat \<Rightarrow> int \<Rightarrow> rat" where
  "py_round_digits x ndigits =
     (if 0 \<le> ndigits then of_int (py_round (x * 10 ^ nat ndigits)) / 10 ^ nat ndigits
      else of_int (py_round (x / 10 ^ nat (- ndigits))) * 10 ^ nat (- ndigits))"

text \<open>
  Decimal digits: the character of a digit, the digits of a natural number without leading
  zeros, and the number a text of digits denotes.
\<close>

definition digit_char :: "nat \<Rightarrow> char" where
  "digit_char d = char_of (48 + d)"

definition is_digit :: "char \<Rightarrow> bool" where
  "is_digit c = (48 \<le> (of_char c :: nat) \<and> (of_char c :: nat) \<le> 57)"

definition digit_val :: "char \<Rightarrow> nat" where
  "digit_val c = of_char c - 48"

function digits_of :: "nat \<Rightarrow> string" where
  "digits_of n = (if n < 10 then [digit_char n] else digits_of (n div 10) @ [digit_char (n mod 10)])"
  by pat_completeness auto
termination
  by (relation "measure id") auto

declare digits_of.simps [simp del]

definition nat_of_digits :: "string \<Rightarrow> nat" where
  "nat_of_digits s = foldl (\<lambda>a c. 10 * a + digit_val c) 0 s"

text \<open>
  \<^verbatim>\<open>f"{x:.{p}f}"\<close>: the number rounded to \<open>p\<close> decimal places (ties to even), as a
  sign, the digits of the whole part and, when \<open>p\<close> is not zero, a point and exactly
  \<open>p\<close> digits. A negative number keeps its sign when it rounds to zero.
\<close>

definition py_format_f :: "rat \<Rightarrow> nat \<Rightarrow> string" where
  "py_format_f x p =
     (let n = nat (py_round (\<bar>x\<bar> * 10 ^ p));
          whole = digits_of (n div 10 ^ p);
          fraction = digits_of (n mod 10 ^ p)
      in (if x < 0 then ''-'' else []) @ whole @
         (if p = 0 then [] else CHR ''.'' # replicate (p - length fraction) CHR ''0'' @ fraction))"

text \<open>\<^verbatim>\<open>s.rstrip(c)\<close> for one character \<open>c\<close>.\<close>

definition py_rstrip :: "char \<Rightarrow> string \<Rightarrow> string" where
  "py_rstrip c s = rev (dropWhile (\<lambda>d. d = c) (rev s))"

text \<open>
  \<^verbatim>\<open>float(s)\<close> for the texts that formatting produces: an optional minus sign, digits,
  and an optional point followed by digits. For any other text the model gives \<open>None\<close>,
  the \<^verbatim>\<open>ValueError\<close> (Python reads a few more forms, such as an exponent, which
  formatting with \<^verbatim>\<open>f\<close> never writes).
\<close>

definition py_float :: "string \<Rightarrow> rat option" where
  "py_float s =
     (let negative = (s \<noteq> [] \<and> hd s = CHR ''-'');
          body = (if negative then tl s else s);
          whole = takeWhile (\<lambda>c. c \<noteq> CHR ''.'') body;
          fraction = drop 1 (dropWhile (\<lambda>c. c \<noteq> CHR ''.'') body)
      in if list_all is_digit whole \<and> list_all is_digit fraction \<and> (whole \<noteq> [] \<or> fraction \<noteq> [])
         then Some ((if negative then - 1 else 1) *
                    (of_nat (nat_of_digits whole) + of_nat (nat_of_digits fraction) / 10 ^ length fraction))
         else None)"

text \<open>
  The two lines of \<^verbatim>\<open>calculate_quantity\<close> that format the quantity and read it back:
  \<^verbatim>\<open>quantity_str = f"{quantity:.{p}f}"\<close> and
  \<^verbatim>\<open>float(quantity_str.rstrip('0').rstrip('.') if '.' in quantity_str else quantity_str)\<close>.
\<close>

definition float_of_format :: "rat \<Rightarrow> nat \<Rightarrow> rat option" where
  "float_of_format x p =
     (let quantity_str = py_format_f x p in
      py_float (if CHR ''.'' \<in> set quantity_str
                then py_rstrip CHR ''.'' (py_rstrip CHR ''0'' quantity_str)
                else quantity_str))"

text \<open>
  The fallback of the handler:
  \<^verbatim>\<open>float(f"{q:.8f}".rstrip('0').rstrip('.') if '.' in f"{q:.8f}" else f"{q:.0f}")\<close>.
\<close>

definition float_of_format_fallback :: "rat \<Rightarrow> rat option" where
  "float_of_format_fallback x =
     py_float (if CHR ''.'' \<in> set (py_format_f x 8)
               then py_rstrip CHR ''.'' (py_rstrip CHR ''0'' (py_format_f x 8))
               else py_format_f x 0)"

text \<open>The number \<open>x\<close> rounded to \<open>p\<close> decimal places, ties to even.\<close>

definition format_fixed :: "rat \<Rightarrow> nat \<Rightarrow> rat" where
  "format_fixed x p = of_int (py_round (x * 10 ^ p)) / 10 ^ p"

section \<open>The entry signal\<close>

text \<open>
  The candle row that \<^verbatim>\<open>get_klines_data\<close> returns, with both moving averages present
  (\<^verbatim>\<open>get_klines_data\<close> returns \<^verbatim>\<open>None\<close> when one of them is missing). The field \<^verbatim>\<open>open\<close>
  is \<open>k_open\<close> here, and the others are named alike.
\<close>

record kline =
  k_open :: rat
  k_high :: rat
  k_low :: rat
  k_close :: rat
  ma_20 :: rat
  ma_60 :: rat

text \<open>
  \<^verbatim>\<open>check_open_long_signal\<close>. A division by zero raises, as Python's float division does;
  the divisions are made in the order of the source, before the conjunction is evaluated.
\<close>

definition check_open_long_signal :: "kline option \<Rightarrow> py_error + bool" where
  "check_open_long_signal kline =
     (case kline of
        None \<Rightarrow> Inr False
      | Some k \<Rightarrow>
          if k_open k = 0 then Inl ZeroDivisionError
          else
            let price_change = (k_close k - k_open k) / k_open k * 100;
                open_low_change = (k_open k - k_low k) / k_open k * 100;
                max_ma = max (ma_20 k) (ma_60 k)
            in if max_ma = 0 then Inl ZeroDivisionError
               else
                 let above_ma_change = (k_close k - max_ma) / max_ma * 100
                 in Inr ((1 \<le> price_change \<and> price_change < 4) \<and>
                         k_close k > ma_60 k \<and> k_close k > ma_20 k \<and>
                         \<bar>open_low_change\<bar> < 4 \<and>
                         (0 < above_ma_change \<and> above_ma_change < 11)))"

text \<open>
  The signal as the specification words it (section 4.4): four named percentages and the
  conjunction of four conditions on them.
\<close>

definition priceChangePct :: "kline \<Rightarrow> rat" where
  "priceChangePct k = (k_close k - k_open k) / k_open k * 100"

definition openLowPct :: "kline \<Rightarrow> rat" where
  "openLowPct k = (k_open k - k_low k) / k_open k * 100"

definition maxMA :: "kline \<Rightarrow> rat" where
  "maxMA k = max (ma_20 k) (ma_60 k)"

definition aboveMAPct :: "kline \<Rightarrow> rat" where
  "aboveMAPct k = (k_close k - maxMA k) / maxMA k * 100"

definition fire_spec :: "kline \<Rightarrow> bool" where
  "fire_spec k =
     ((1 \<le> priceChangePct k \<and> priceChangePct k < 4) \<and>
      (k_close k > ma_20 k \<and> k_close k > ma_60 k) \<and>
      \<bar>openLowPct k\<bar> < 4 \<and>
      (0 < aboveMAPct k \<and> aboveMAPct k < 11))"

text \<open>The two candles of the specification's example.\<close>

definition example_candle :: kline where
  "example_candle = \<lparr>k_open = 100, k_high = 102, k_low = 97, k_close = 102, ma_20 = 99, ma_60 = 98\<rparr>"

definition example_candle_112 :: kline where
  "example_candle_112 = example_candle\<lparr>k_close := 112\<rparr>"

section \<open>What the exchange answers\<close>

text \<open>
  The entries of \<^verbatim>\<open>exchange_info['symbols']\<close> and of their \<^verbatim>\<open>'filters'\<close> lists, with the
  keys the code reads. \<^verbatim>\<open>float(f['stepSize'])\<close> and \<^verbatim>\<open>float(f['minQty'])\<close> are the parsed
  numbers. \<^verbatim>\<open>quantityPrecision\<close> is optional: the code has a fallback for a row without it.
\<close>

record lot_filter =
  filterType :: string
  stepSize :: rat
  minQty :: rat

record symbol_info =
  si_symbol :: string
  si_status :: string
  filters :: "lot_filter list"
  quantityPrecision :: "int option"
  pricePrecision :: int

text \<open>A row of \<^verbatim>\<open>futures_position_information\<close>; a price key may be missing from a row.\<close>

record position =
  pos_symbol :: string
  positionAmt :: rat
  entryPrice :: "rat option"
  markPrice :: "rat option"

text \<open>An order as the exchange reports it, and the parameters of an order submitted.\<close>

record order =
  orderId :: int
  order_type :: string
  reduceOnly :: bool
  order_status :: string

datatype side = SIDE_BUY | SIDE_SELL

datatype order_kind = FUTURE_ORDER_TYPE_MARKET | FUTURE_ORDER_TYPE_STOP_MARKET

record order_request =
  req_symbol :: string
  req_side :: side
  req_type :: order_kind
  req_quantity :: "rat option"
  req_stopPrice :: "rat option"
  req_closePosition :: bool
  req_reduceOnly :: bool

text \<open>
  The exchange as one run of a method sees it: for each API function, what
  \<^verbatim>\<open>self.safe_request(self.client.<function>, ...)\<close> returns or raises for the given
  arguments. \<^verbatim>\<open>symbol_ticker\<close> is \<^verbatim>\<open>float(ticker['price'])\<close>; \<^verbatim>\<open>klines\<close> gives, per raw
  candle, the four numbers \<^verbatim>\<open>float(k[1])\<close> to \<^verbatim>\<open>float(k[4])\<close> (open, high, low, close).
  Within one run of a method, a request repeated with the same arguments gets the same
  answer.
\<close>

record exchange =
  symbol_ticker :: "string \<Rightarrow> exn + rat"
  exchange_info :: "exn + symbol_info list"
  position_information :: "exn + position list"
  open_orders :: "string \<Rightarrow> exn + order list"
  cancel_order :: "string \<Rightarrow> int \<Rightarrow> exn + unit"
  create_order :: "order_request \<Rightarrow> exn + order"
  get_order :: "string \<Rightarrow> int \<Rightarrow> exn + order"
  klines :: "string \<Rightarrow> exn + (rat \<times> rat \<times> rat \<times> rat) list"

section \<open>Order sizing\<close>

text \<open>
  \<^verbatim>\<open>calculate_quantity\<close>. Every exception inside the body (a failed request, a division by
  a zero price or a zero step size) is caught by the outer handler, which returns
  \<^verbatim>\<open>None\<close>. Formatting with a precision that is missing or negative raises inside the
  inner \<^verbatim>\<open>try\<close> (the inner \<open>None\<close> below), whose handler formats with eight
  decimal places instead; an exception there is caught by the outer handler.
\<close>

definition calculate_quantity :: "exchange \<Rightarrow> string \<Rightarrow> rat \<Rightarrow> rat \<Rightarrow> rat option" where
  "calculate_quantity ex symbol usdt_amount leverage =
     (case symbol_ticker ex symbol of
        Inl e \<Rightarrow> None
      | Inr price \<Rightarrow>
          if price = 0 then None
          else
            (let raw_quantity = usdt_amount * leverage / price in
             (case exchange_info ex of
                Inl e \<Rightarrow> None
              | Inr symbols \<Rightarrow>
                  (case find (\<lambda>s. si_symbol s = symbol) symbols of
                     None \<Rightarrow> None
                   | Some info \<Rightarrow>
                       (case find (\<lambda>f. filterType f = ''LOT_SIZE'') (filters info) of
                          None \<Rightarrow> None
                        | Some lot_size_filter \<Rightarrow>
                            (let step_size = stepSize lot_size_filter;
                                 min_qty = minQty lot_size_filter
                             in if step_size = 0 then None
                                else
                                  (let quantity = of_int (py_round (raw_quantity / step_size)) * step_size
                                   in if quantity < min_qty then None
                                      else
                                        (case (case quantityPrecision info of
                                                 None \<Rightarrow> None
                                               | Some p \<Rightarrow>
                                                   if 0 \<le> p then float_of_format quantity (nat p)
                                                   else None) of
                                           Some formatted \<Rightarrow> Some formatted
                                         | None \<Rightarrow> float_of_format_fallback quantity))))))))"

text \<open>What the claim asks of a quantity: a whole number of steps, and at least the minimum.\<close>

definition multiple_of :: "rat \<Rightarrow> rat \<Rightarrow> bool" where
  "multiple_of step q = (\<exists>k::int. q = of_int k * step)"

text \<open>
  An exchange that answers only the two requests \<^verbatim>\<open>calculate_quantity\<close> makes: one mark
  price and one instrument.
\<close>

definition no_answer :: exn where
  "no_answer = Exn None ''not available''"

definition quoting_exchange :: "rat \<Rightarrow> symbol_info \<Rightarrow> exchange" where
  "quoting_exchange price info =
     \<lparr>symbol_ticker = (\<lambda>s. Inr price),
      exchange_info = Inr [info],
      position_information = Inl no_answer,
      open_orders = (\<lambda>s. Inl no_answer),
      cancel_order = (\<lambda>s i. Inl no_answer),
      create_order = (\<lambda>r. Inl no_answer),
      get_order = (\<lambda>s i. Inl no_answer),
      klines = (\<lambda>s. Inl no_answer)\<rparr>"

text \<open>
  An instrument whose step size (0.001) is finer than its quantity precision (two decimal
  places), with minimum quantity 0.012.
\<close>

definition coarse_precision_info :: symbol_info where
  "coarse_precision_info =
     \<lparr>si_symbol = ''XUSDT'', si_status = ''TRADING'',
      filters = [\<lparr>filterType = ''PRICE_FILTER'', stepSize = 0, minQty = 0\<rparr>,
                 \<lparr>filterType = ''LOT_SIZE'', stepSize = 1 / 1000, minQty = 12 / 1000\<rparr>],
      quantityPrecision = Some 2, pricePrecision = 2\<rparr>"

section \<open>The clock synchronisation manager\<close>

text \<open>
  The fields of \<^verbatim>\<open>TimeSyncManager\<close>. Times in milliseconds are integers; \<^verbatim>\<open>time.time()\<close>
  is a number of seconds, so \<^verbatim>\<open>last_sync_time\<close> and \<^verbatim>\<open>min_sync_interval\<close> are rationals.
\<close>

record time_sync =
  sync_interval :: int
  max_allowed_offset :: int
  time_offset :: int
  last_server_time :: int
  last_local_time :: int
  is_synced :: bool
  running :: bool
  last_sync_time :: rat
  min_sync_interval :: rat

text \<open>\<^verbatim>\<open>__init__\<close>, with its two parameters (1800 and 10000 by default).\<close>

definition init_time_sync :: "int \<Rightarrow> int \<Rightarrow> time_sync" where
  "init_time_sync interval max_offset =
     \<lparr>sync_interval = interval, max_allowed_offset = max_offset, time_offset = 0,
      last_server_time = 0, last_local_time = 0, is_synced = False, running = False,
      last_sync_time = 0, min_sync_interval = 5\<rparr>"

text \<open>\<^verbatim>\<open>int(t * 1000)\<close>: a reading of \<^verbatim>\<open>time.time()\<close> in whole milliseconds.\<close>

definition py_ms :: "rat \<Rightarrow> int" where
  "py_ms t = py_int (t * 1000)"

text \<open>
  What querying one endpoint gives. \<open>Unreachable\<close>: \<^verbatim>\<open>requests.get\<close>,
  \<^verbatim>\<open>raise_for_status\<close> or \<^verbatim>\<open>response.json()\<close> raised, and the bare \<^verbatim>\<open>except\<close> moved on to
  the next endpoint with no variable assigned. \<open>Reply start end st\<close>: the readings of
  \<^verbatim>\<open>time.time()\<close> before and after the request, and the value under \<^verbatim>\<open>'serverTime'\<close> of
  the answer when the key is there.
\<close>

datatype probe = Unreachable | Reply rat rat "int option"

text \<open>The list \<^verbatim>\<open>endpoints\<close> of \<^verbatim>\<open>sync_time\<close>.\<close>

definition endpoints :: "string list" where
  "endpoints =
     [''https://api.binance.com/api/v3/time'',
      ''https://api1.binance.com/api/v3/time'',
      ''https://api2.binance.com/api/v3/time'',
      ''https://api3.binance.com/api/v3/time'']"

text \<open>
  The variables of the loop over the endpoints, and the endpoints queried so far (the
  last is not a variable of the source; it records the order of the requests).
\<close>

record poll =
  binance_time :: int
  network_delay :: int
  queried :: "string list"

text \<open>\<^verbatim>\<open>response.json().get('serverTime', 0)\<close>.\<close>

definition server_time_or_0 :: "int option \<Rightarrow> int" where
  "server_time_or_0 st = (case st of None \<Rightarrow> 0 | Some v \<Rightarrow> v)"

fun query_endpoints :: "(string \<Rightarrow> probe) \<Rightarrow> string list \<Rightarrow> poll \<Rightarrow> poll" where
  "query_endpoints fetch [] p = p"
| "query_endpoints fetch (endpoint # rest) p =
     (case fetch endpoint of
        Unreachable \<Rightarrow> query_endpoints fetch rest (p\<lparr>queried := queried p @ [endpoint]\<rparr>)
      | Reply request_start request_end st \<Rightarrow>
          (let p1 = \<lparr>binance_time = server_time_or_0 st,
                     network_delay = py_ms request_end - py_ms request_start,
                     queried = queried p @ [endpoint]\<rparr>
           in if network_delay p1 < 500 then p1
              else query_endpoints fetch rest p1))"

text \<open>
  What one run of \<^verbatim>\<open>sync_time\<close> reads from outside: the clock at entry, the endpoints, and
  the clock after the loop.
\<close>

record sync_world =
  entry_clock :: rat
  fetch :: "string \<Rightarrow> probe"
  response_clock :: rat

text \<open>
  \<^verbatim>\<open>Exception("...")\<close> raised when \<^verbatim>\<open>binance_time\<close> is still \<open>0\<close> after the loop. Its
  message (U+6240 U+6709 U+5E01 U+5B89, "API", U+7AEF U+70B9 U+90FD U+65E0 U+6CD5 U+8BBF
  U+95EE: "no Binance API endpoint can be reached") is written as its UTF-8 bytes.
\<close>

definition all_endpoints_unreachable :: exn where
  "all_endpoints_unreachable =
     Exn None
         [CHR 0xE6, CHR 0x89, CHR 0x80, CHR 0xE6, CHR 0x9C, CHR 0x89,
          CHR 0xE5, CHR 0xB8, CHR 0x81, CHR 0xE5, CHR 0xAE, CHR 0x89,
          CHR 0x41, CHR 0x50, CHR 0x49, CHR 0xE7, CHR 0xAB, CHR 0xAF,
          CHR 0xE7, CHR 0x82, CHR 0xB9, CHR 0xE9, CHR 0x83, CHR 0xBD,
          CHR 0xE6, CHR 0x97, CHR 0xA0, CHR 0xE6, CHR 0xB3, CHR 0x95,
          CHR 0xE8, CHR 0xAE, CHR 0xBF, CHR 0xE9, CHR 0x97, CHR 0xAE]"

text \<open>
  What \<^verbatim>\<open>sync_time\<close> returns: \<^verbatim>\<open>None\<close> when the call is skipped, \<^verbatim>\<open>True\<close> after a
  synchronisation, \<^verbatim>\<open>False\<close> when an exception was caught (kept here with the result).
\<close>

datatype sync_result = Skipped | Synced | Failed exn

definition sync_time :: "time_sync \<Rightarrow> bool \<Rightarrow> sync_world \<Rightarrow> time_sync \<times> sync_result" where
  "sync_time self force w =
     (let current_time = entry_clock w in
      if \<not> force \<and> current_time - last_sync_time self < min_sync_interval self then (self, Skipped)
      else
        (let local_request_time = py_ms current_time;
             p = query_endpoints (fetch w) endpoints
                   \<lparr>binance_time = 0, network_delay = 1000, queried = []\<rparr>
         in if binance_time p = 0 then (self\<lparr>is_synced := False\<rparr>, Failed all_endpoints_unreachable)
            else
              (let local_response_time = py_ms (response_clock w);
                   estimated_server_time_at_request = local_request_time + network_delay p div 2
               in (self\<lparr>time_offset := binance_time p - estimated_server_time_at_request,
                        last_server_time := binance_time p,
                        last_local_time := local_response_time,
                        last_sync_time := current_time,
                        is_synced := True\<rparr>,
                   Synced))))"

text \<open>The endpoints one run of \<^verbatim>\<open>sync_time\<close> sends a request to, in the order of the requests.\<close>

definition endpoints_queried :: "time_sync \<Rightarrow> bool \<Rightarrow> sync_world \<Rightarrow> string list" where
  "endpoints_queried self force w =
     (if \<not> force \<and> entry_clock w - last_sync_time self < min_sync_interval self then []
      else queried (query_endpoints (fetch w) endpoints
                      \<lparr>binance_time = 0, network_delay = 1000, queried = []\<rparr>))"

text \<open>
  What one run of \<^verbatim>\<open>get_synced_timestamp\<close> reads from outside: the world of the
  \<^verbatim>\<open>sync_time()\<close> call made when the manager is not synchronised, the clock, the world of
  the \<^verbatim>\<open>sync_time()\<close> call made when the last synchronisation is older than
  \<^verbatim>\<open>sync_interval\<close>, and the clock read again after that call.
\<close>

record stamp_world =
  unsynced_sync :: sync_world
  clock :: rat
  stale_sync :: sync_world
  clock_again :: rat

definition get_synced_timestamp :: "time_sync \<Rightarrow> stamp_world \<Rightarrow> time_sync \<times> int" where
  "get_synced_timestamp self w =
     (let self1 = (if \<not> is_synced self then fst (sync_time self False (unsynced_sync w)) else self);
          current_local_time = py_ms (clock w);
          stale = (current_local_time - last_local_time self1 > sync_interval self1 * 1000);
          self2 = (if stale then fst (sync_time self1 False (stale_sync w)) else self1);
          current_local_time = (if stale then py_ms (clock_again w) else current_local_time)
      in if last_server_time self2 > 0 then
           (let time_since_last_sync = current_local_time - last_local_time self2
            in (self2, last_server_time self2 + time_since_last_sync))
         else (self2, current_local_time + time_offset self2))"

text \<open>The value of \<^verbatim>\<open>current_local_time\<close> at the \<^verbatim>\<open>return\<close> of \<^verbatim>\<open>get_synced_timestamp\<close>.\<close>

definition local_time_used :: "time_sync \<Rightarrow> stamp_world \<Rightarrow> int" where
  "local_time_used self w =
     (let self1 = (if \<not> is_synced self then fst (sync_time self False (unsynced_sync w)) else self)
      in if py_ms (clock w) - last_local_time self1 > sync_interval self1 * 1000
         then py_ms (clock_again w) else py_ms (clock w))"

text \<open>
  One measurement, as the specification names its parts: the request-send time, the
  round-trip delay and the reported remote time, all in milliseconds.
\<close>

record sample =
  send_time :: int
  delay :: int
  remote_time :: int

fun sample_of :: "probe \<Rightarrow> sample option" where
  "sample_of Unreachable = None"
| "sample_of (Reply request_start request_end st) =
     Some \<lparr>send_time = py_ms request_start,
           delay = py_ms request_end - py_ms request_start,
           remote_time = server_time_or_0 st\<rparr>"

definition replied :: "(string \<Rightarrow> probe) \<Rightarrow> string \<Rightarrow> bool" where
  "replied get e = (sample_of (get e) \<noteq> None)"

definition fast :: "(string \<Rightarrow> probe) \<Rightarrow> string \<Rightarrow> bool" where
  "fast get e = (case sample_of (get e) of None \<Rightarrow> False | Some s \<Rightarrow> delay s < 500)"

text \<open>
  The measurement the loop ends with, said without the loop: that of the first endpoint
  whose delay is below 500 ms, and when there is none, that of the last endpoint of the
  list that answered.
\<close>

definition accepted_endpoint :: "(string \<Rightarrow> probe) \<Rightarrow> string list \<Rightarrow> string option" where
  "accepted_endpoint get eps =
     (case find (fast get) eps of
        Some e \<Rightarrow> Some e
      | None \<Rightarrow>
          if filter (replied get) eps = [] then None
          else Some (last (filter (replied get) eps)))"

text \<open>The endpoints up to and with the first fast one; all of them when none is fast.\<close>

definition until_fast :: "(string \<Rightarrow> probe) \<Rightarrow> string list \<Rightarrow> string list" where
  "until_fast get eps =
     takeWhile (\<lambda>e. \<not> fast get e) eps @ take 1 (dropWhile (\<lambda>e. \<not> fast get e) eps)"

text \<open>
  The rule of the specification (section 4.1), in its words: the first sample with a
  delay below the threshold is accepted, else the best sample, the one of lowest delay,
  is kept; the offset is the remote time minus the estimated remote time at send, which is
  the send time plus half the delay.
\<close>

fun lowest_delay :: "sample list \<Rightarrow> sample option" where
  "lowest_delay [] = None"
| "lowest_delay (s # ss) =
     (case lowest_delay ss of
        None \<Rightarrow> Some s
      | Some b \<Rightarrow> if delay s \<le> delay b then Some s else Some b)"

definition sample_spec :: "(string \<Rightarrow> probe) \<Rightarrow> string list \<Rightarrow> sample option" where
  "sample_spec get eps =
     (let samples = List.map_filter (\<lambda>e. sample_of (get e)) eps in
      case find (\<lambda>s. delay s < 500) samples of
        Some s \<Rightarrow> Some s
      | None \<Rightarrow> lowest_delay samples)"

definition offset_spec :: "sample \<Rightarrow> rat" where
  "offset_spec s = of_int (remote_time s) - (of_int (send_time s) + of_int (delay s) / 2)"

text \<open>
  Two worlds for \<^verbatim>\<open>sync_time\<close>. In the first no endpoint answers. In the second the
  remote clock is 5000 ms ahead; the first endpoint answers after 600 ms, the second,
  asked 700 ms after the call was entered, after 900 ms, and the other two do not answer.
\<close>

definition offline_world :: sync_world where
  "offline_world = \<lparr>entry_clock = 1700000000, fetch = (\<lambda>e. Unreachable), response_clock = 1700000020\<rparr>"

definition slow_world :: sync_world where
  "slow_world =
     \<lparr>entry_clock = 1700000000,
      fetch = (\<lambda>e. if e = ''https://api.binance.com/api/v3/time''
                    then Reply 1700000000 (1700000000 + 6 / 10) (Some 1700000005300)
                    else if e = ''https://api1.binance.com/api/v3/time''
                    then Reply (1700000000 + 7 / 10) (1700000000 + 16 / 10) (Some 1700000006150)
                    else Unreachable),
      response_clock = 1700000012\<rparr>"

text \<open>A world in which the first endpoint answers after 40 ms.\<close>

definition quick_world :: sync_world where
  "quick_world =
     \<lparr>entry_clock = 1700000000,
      fetch = (\<lambda>e. if e = ''https://api.binance.com/api/v3/time''
                    then Reply 1700000000 (1700000000 + 4 / 100) (Some 1700000005020)
                    else Unreachable),
      response_clock = 1700000000 + 4 / 100\<rparr>"

text \<open>
  A world in which the first endpoint gives up after five seconds and the second, asked
  then, answers after 40 ms; the remote clock is 5000 ms ahead.
\<close>

definition late_world :: sync_world where
  "late_world =
     \<lparr>entry_clock = 1700000000,
      fetch = (\<lambda>e. if e = ''https://api1.binance.com/api/v3/time''
                    then Reply 1700000005 (1700000005 + 4 / 100) (Some 1700000010020)
                    else Unreachable),
      response_clock = 1700000005 + 4 / 100\<rparr>"

text \<open>
  The states the manager can be in when every remote time it has been given is a time
  after the epoch: either a synchronisation has stored a positive remote time, or none has
  succeeded yet and the three fields still hold the zeros of \<^verbatim>\<open>__init__\<close>.
\<close>

definition consistent_sync :: "time_sync \<Rightarrow> bool" where
  "consistent_sync self =
     (0 < last_server_time self \<or>
      (last_server_time self = 0 \<and> last_local_time self = 0 \<and> time_offset self = 0))"

fun from_epoch :: "probe \<Rightarrow> bool" where
  "from_epoch Unreachable = True"
| "from_epoch (Reply request_start request_end None) = True"
| "from_epoch (Reply request_start request_end (Some v)) = (0 \<le> v)"

definition reports_from_epoch :: "sync_world \<Rightarrow> bool" where
  "reports_from_epoch w = list_all (\<lambda>e. from_epoch (fetch w e)) endpoints"

text \<open>
  Two consecutive calls of \<^verbatim>\<open>get_synced_timestamp\<close>: the first, on a new manager, reads the
  clock one second after a synchronisation in \<open>quick_world\<close>; the second reads it one
  second later.
\<close>

definition first_call_world :: stamp_world where
  "first_call_world =
     \<lparr>unsynced_sync = quick_world, clock = 1700000001, stale_sync = offline_world,
      clock_again = 1700000001\<rparr>"

definition second_call_world :: stamp_world where
  "second_call_world =
     \<lparr>unsynced_sync = offline_world, clock = 1700000002, stale_sync = offline_world,
      clock_again = 1700000002\<rparr>"

text \<open>The manager after the synchronisation of the first call.\<close>

definition synced_once :: time_sync where
  "synced_once =
     \<lparr>sync_interval = 1800, max_allowed_offset = 10000, time_offset = 5000,
      last_server_time = 1700000005020, last_local_time = 1700000000040,
      is_synced = True, running = False, last_sync_time = 1700000000,
      min_sync_interval = 5\<rparr>"

section \<open>The stop-loss bookkeeping of the trader\<close>

text \<open>
  The part of \<^verbatim>\<open>BinanceFuturesTrader\<close> that the stop-loss methods change:
  \<^verbatim>\<open>self.order_relations\<close>, a dictionary from a symbol to a dictionary that holds the
  order id under the key \<^verbatim>\<open>'stop_loss'\<close>.
\<close>

record trader =
  order_relations :: "string \<rightharpoonup> (string \<rightharpoonup> int)"

text \<open>
  \<^verbatim>\<open>get_position\<close>: the first row for the symbol with a positive amount and all three
  keys; \<^verbatim>\<open>None\<close> when there is none or the request fails.
\<close>

definition get_position :: "exchange \<Rightarrow> string \<Rightarrow> position option" where
  "get_position ex symbol =
     (case position_information ex of
        Inl e \<Rightarrow> None
      | Inr positions \<Rightarrow>
          find (\<lambda>pos. pos_symbol pos = symbol \<and> positionAmt pos > 0 \<and>
                      entryPrice pos \<noteq> None \<and> markPrice pos \<noteq> None) positions)"

text \<open>\<^verbatim>\<open>str.upper()\<close> on the letters \<open>a\<close> to \<open>z\<close>.\<close>

definition py_upper :: "string \<Rightarrow> string" where
  "py_upper s =
     map (\<lambda>c. if 97 \<le> (of_char c :: nat) \<and> (of_char c :: nat) \<le> 122
               then char_of ((of_char c :: nat) - 32) else c) s"

text \<open>
  \<^verbatim>\<open>cancel_associated_orders\<close>. Returned with the new state: the ids of the orders a
  cancellation was requested for. A cancellation that fails is caught, printed and
  skipped, so the answers to the cancellations do not change the result. When the list
  of open orders cannot be fetched, nothing is cancelled and the record stays.
\<close>

definition cancel_associated_orders :: "trader \<Rightarrow> exchange \<Rightarrow> string \<Rightarrow> trader \<times> int list" where
  "cancel_associated_orders self ex symbol =
     (case open_orders ex symbol of
        Inl e \<Rightarrow> (self, [])
      | Inr orders \<Rightarrow>
          (self\<lparr>order_relations := (order_relations self)(symbol := None)\<rparr>,
           map orderId
             (filter (\<lambda>order. py_upper (order_type order) = ''STOP_MARKET'' \<or> reduceOnly order)
                orders)))"

text \<open>
  The parameters of the stop order both methods submit: a \<^verbatim>\<open>STOP_MARKET\<close> sell order
  with \<^verbatim>\<open>closePosition=True\<close>. A parameter that is not passed is \<open>None\<close> or \<open>False\<close>.
\<close>

definition stop_request :: "string \<Rightarrow> rat \<Rightarrow> order_request" where
  "stop_request symbol stop_price =
     \<lparr>req_symbol = symbol, req_side = SIDE_SELL, req_type = FUTURE_ORDER_TYPE_STOP_MARKET,
      req_quantity = None, req_stopPrice = Some stop_price, req_closePosition = True,
      req_reduceOnly = False\<rparr>"

text \<open>
  \<^verbatim>\<open>if symbol not in self.order_relations: self.order_relations[symbol] = {}\<close> and then
  \<^verbatim>\<open>self.order_relations[symbol]['stop_loss'] = order_id\<close>.
\<close>

definition record_stop_loss :: "trader \<Rightarrow> string \<Rightarrow> int \<Rightarrow> trader" where
  "record_stop_loss self symbol order_id =
     self\<lparr>order_relations :=
       (order_relations self)
         (symbol \<mapsto> (case order_relations self symbol of
                         None \<Rightarrow> Map.empty
                       | Some relation \<Rightarrow> relation)(''stop_loss'' \<mapsto> order_id))\<rparr>"

text \<open>What Python raises for \<^verbatim>\<open>kline['low']\<close> when \<^verbatim>\<open>kline\<close> is \<^verbatim>\<open>None\<close>.\<close>

definition none_not_subscriptable :: exn where
  "none_not_subscriptable = Exn None ''TypeError: NoneType object is not subscriptable''"

text \<open>
  \<^verbatim>\<open>set_stop_loss\<close>. The request for the exchange information and the computation of the
  stop price are outside any \<^verbatim>\<open>try\<close>: an exception there leaves the method (left
  injection). The result otherwise is the order, or \<^verbatim>\<open>None\<close>.
\<close>

definition set_stop_loss ::
  "trader \<Rightarrow> exchange \<Rightarrow> string \<Rightarrow> rat \<Rightarrow> kline option \<Rightarrow> trader \<times> (exn + order option)" where
  "set_stop_loss self ex symbol entry_price kline =
     (case get_position ex symbol of
        None \<Rightarrow> (self, Inr None)
      | Some position \<Rightarrow>
          if positionAmt position = 0 then (self, Inr None)
          else
            (case exchange_info ex of
               Inl e \<Rightarrow> (self, Inl e)
             | Inr symbols \<Rightarrow>
                 (case find (\<lambda>s. si_symbol s = symbol) symbols of
                    None \<Rightarrow> (self, Inr None)
                  | Some info \<Rightarrow>
                      (case kline of
                         None \<Rightarrow> (self, Inl none_not_subscriptable)
                       | Some k \<Rightarrow>
                           (let price_precision = pricePrecision info;
                                stop_price = py_round_digits (k_low k * (999 / 1000)) price_precision;
                                self1 = fst (cancel_associated_orders self ex symbol)
                            in case create_order ex (stop_request symbol stop_price) of
                                 Inl e \<Rightarrow> (self1, Inr None)
                               | Inr order \<Rightarrow>
                                   (record_stop_loss self1 symbol (orderId order),
                                    Inr (Some order)))))))"

text \<open>
  \<^verbatim>\<open>get_current_hour_klines\<close>: the first raw candle with its price change in percent;
  \<^verbatim>\<open>None\<close> when the request fails, the list is empty or the open price is zero (the
  division raises inside the method's own \<^verbatim>\<open>try\<close>).
\<close>

record hour_kline =
  hk_open :: rat
  hk_high :: rat
  hk_low :: rat
  hk_close :: rat
  price_change_pct :: rat

definition get_current_hour_klines :: "exchange \<Rightarrow> string \<Rightarrow> hour_kline option" where
  "get_current_hour_klines ex symbol =
     (case klines ex symbol of
        Inl e \<Rightarrow> None
      | Inr [] \<Rightarrow> None
      | Inr ((op, hi, lo, cl) # later) \<Rightarrow>
          if op = 0 then None
          else Some \<lparr>hk_open = op, hk_high = hi, hk_low = lo, hk_close = cl,
                     price_change_pct = (cl - op) / op * 100\<rparr>)"

text \<open>
  \<^verbatim>\<open>update_stop_loss\<close>. The whole body is inside a \<^verbatim>\<open>try\<close> whose handler returns
  \<^verbatim>\<open>None\<close>; the method also returns \<^verbatim>\<open>None\<close> when the price change is below one percent.
\<close>

definition update_stop_loss ::
  "trader \<Rightarrow> exchange \<Rightarrow> string \<Rightarrow> rat \<Rightarrow> trader \<times> order option" where
  "update_stop_loss self ex symbol entry_price =
     (case get_position ex symbol of
        None \<Rightarrow> (self, None)
      | Some position \<Rightarrow>
          if positionAmt position = 0 then (self, None)
          else
            (case get_current_hour_klines ex symbol of
               None \<Rightarrow> (self, None)
             | Some hour_kline \<Rightarrow>
                 if 1 \<le> price_change_pct hour_kline then
                   (case exchange_info ex of
                      Inl e \<Rightarrow> (self, None)
                    | Inr symbols \<Rightarrow>
                        (case find (\<lambda>s. si_symbol s = symbol) symbols of
                           None \<Rightarrow> (self, None)
                         | Some info \<Rightarrow>
                             (let price_precision = pricePrecision info;
                                  new_stop_price =
                                    py_round_digits (hk_low hour_kline * (999 / 1000)) price_precision;
                                  self1 = fst (cancel_associated_orders self ex symbol)
                              in case create_order ex (stop_request symbol new_stop_price) of
                                   Inl e \<Rightarrow> (self1, None)
                                 | Inr order \<Rightarrow>
                                     (case get_order ex symbol (orderId order) of
                                        Inl e \<Rightarrow> (self1, None)
                                      | Inr verified_order \<Rightarrow>
                                          if order_status verified_order = ''NEW''
                                          then (record_stop_loss self1 symbol (orderId order), Some order)
                                          else (self1, None)))))
                 else (self, None)))"

text \<open>The stop-loss order ids that the tracking map holds for a symbol.\<close>

definition stop_loss_ids :: "trader \<Rightarrow> string \<Rightarrow> int set" where
  "stop_loss_ids self symbol =
     {order_id. \<exists>relation. order_relations self symbol = Some relation \<and>
                            relation ''stop_loss'' = Some order_id}"

text \<open>
  An exchange with one open long position, whose old stop order (id 7) can be cancelled
  and which refuses the new stop order (error -2021, the stop price would trigger at once).
\<close>

definition xusdt_info :: symbol_info where
  "xusdt_info =
     \<lparr>si_symbol = ''XUSDT'', si_status = ''TRADING'',
      filters = [\<lparr>filterType = ''LOT_SIZE'', stepSize = 1, minQty = 1\<rparr>],
      quantityPrecision = Some 0, pricePrecision = 2\<rparr>"

definition refusing_exchange :: exchange where
  "refusing_exchange =
     \<lparr>symbol_ticker = (\<lambda>s. Inr 100),
      exchange_info = Inr [xusdt_info],
      position_information =
        Inr [\<lparr>pos_symbol = ''XUSDT'', positionAmt = 3, entryPrice = Some 100, markPrice = Some 100\<rparr>],
      open_orders = (\<lambda>s. Inr [\<lparr>orderId = 7, order_type = ''STOP_MARKET'', reduceOnly = False,
                                order_status = ''NEW''\<rparr>]),
      cancel_order = (\<lambda>s i. Inr ()),
      create_order = (\<lambda>r. Inl (Exn (Some (- 2021)) ''Order would immediately trigger.'')),
      get_order = (\<lambda>s i. Inl no_answer),
      klines = (\<lambda>s. Inr [(100, 103, 99, 102)])\<rparr>"

text \<open>The same exchange when it accepts the new stop order and gives it the id 8.\<close>

definition accepting_exchange :: exchange where
  "accepting_exchange =
     refusing_exchange
       \<lparr>create_order := (\<lambda>r. Inr \<lparr>orderId = 8, order_type = ''STOP_MARKET'', reduceOnly = False,
                                   order_status = ''NEW''\<rparr>),
        get_order := (\<lambda>s i. Inr \<lparr>orderId = i, order_type = ''STOP_MARKET'', reduceOnly = False,
                                  order_status = ''NEW''\<rparr>)\<rparr>"

definition tracking_7 :: trader where
  "tracking_7 = \<lparr>order_relations = [''XUSDT'' \<mapsto> [''stop_loss'' \<mapsto> 7]]\<rparr>"

section \<open>The take-profit monitor\<close>

text \<open>
  The fields of \<^verbatim>\<open>TakeProfitMonitor\<close>: the threshold, and the set of symbols for which a
  partial close has been made.
\<close>

record monitor =
  profit_threshold :: rat
  take_profit_executed :: "string set"

text \<open>
  \<^verbatim>\<open>get_positions\<close> of the monitor: the rows with a non-zero amount, and the empty list
  when the request fails. \<^verbatim>\<open>get_current_price\<close>: \<^verbatim>\<open>None\<close> when the request fails.
\<close>

definition get_positions :: "exchange \<Rightarrow> position list" where
  "get_positions ex =
     (case position_information ex of
        Inl e \<Rightarrow> []
      | Inr positions \<Rightarrow> filter (\<lambda>pos. positionAmt pos \<noteq> 0) positions)"

definition get_current_price :: "exchange \<Rightarrow> string \<Rightarrow> rat option" where
  "get_current_price ex symbol =
     (case symbol_ticker ex symbol of Inl e \<Rightarrow> None | Inr price \<Rightarrow> Some price)"

text \<open>The parameters of the closing order: a market order with \<^verbatim>\<open>reduceOnly=True\<close>.\<close>

definition close_request :: "string \<Rightarrow> side \<Rightarrow> rat \<Rightarrow> order_request" where
  "close_request symbol sd quantity =
     \<lparr>req_symbol = symbol, req_side = sd, req_type = FUTURE_ORDER_TYPE_MARKET,
      req_quantity = Some quantity, req_stopPrice = None, req_closePosition = False,
      req_reduceOnly = True\<rparr>"

text \<open>
  The end of \<^verbatim>\<open>take_profit_half_position\<close>, from the choice of the side on: the order is
  submitted; when the request fails, or when the profit percentage cannot be computed
  because the entry price is zero, the handler returns \<^verbatim>\<open>False\<close> and the symbol is not
  added to the set. The third component lists the orders placed, that is, the requests
  the exchange accepted.
\<close>

definition submit_close ::
  "monitor \<Rightarrow> exchange \<Rightarrow> string \<Rightarrow> rat \<Rightarrow> rat \<Rightarrow> rat \<Rightarrow> monitor \<times> bool \<times> order_request list" where
  "submit_close self ex symbol position_amt entry_price half_quantity =
     (let sd = (if position_amt > 0 then SIDE_SELL else SIDE_BUY);
          request = close_request symbol sd half_quantity
      in case create_order ex request of
           Inl e \<Rightarrow> (self, False, [])
         | Inr order \<Rightarrow>
             if entry_price = 0 then (self, False, [request])
             else (self\<lparr>take_profit_executed := insert symbol (take_profit_executed self)\<rparr>,
                   True, [request]))"

text \<open>
  \<^verbatim>\<open>take_profit_half_position\<close>. Every exception is caught by the handler, which returns
  \<^verbatim>\<open>False\<close>. Without a \<^verbatim>\<open>LOT_SIZE\<close> filter the half is submitted as it is. The
  quantity is computed in floating point, \<^verbatim>\<open>abs(position_amt) / 2\<close> and then
  \<^verbatim>\<open>round(half_quantity / step_size) * step_size\<close>, and is passed to the order request
  as computed; \<^verbatim>\<open>round\<close> gives an integer, which the multiplication converts back to a
  float without loss.
\<close>

definition take_profit_half_position ::
  "monitor \<Rightarrow> exchange \<Rightarrow> string \<Rightarrow> position \<Rightarrow> monitor \<times> bool \<times> order_request list" where
  "take_profit_half_position self ex symbol position =
     (let position_amt = positionAmt position in
      case entryPrice position of
        None \<Rightarrow> (self, False, [])
      | Some entry_price \<Rightarrow>
          (case get_current_price ex symbol of
             None \<Rightarrow> (self, False, [])
           | Some current_price \<Rightarrow>
               (let half_quantity = float_truediv \<bar>position_amt\<bar> 2 in
                case exchange_info ex of
                  Inl e \<Rightarrow> (self, False, [])
                | Inr symbols \<Rightarrow>
                    (case find (\<lambda>s. si_symbol s = symbol) symbols of
                       None \<Rightarrow> (self, False, [])
                     | Some info \<Rightarrow>
                         (case find (\<lambda>f. filterType f = ''LOT_SIZE'') (filters info) of
                            None \<Rightarrow> submit_close self ex symbol position_amt entry_price half_quantity
                          | Some lot_size_filter \<Rightarrow>
                              (let step_size = stepSize lot_size_filter;
                                   min_qty = minQty lot_size_filter
                               in if step_size = 0 then (self, False, [])
                                  else
                                    (let half_quantity =
                                           float_mul
                                             (of_int (py_round (float_truediv half_quantity step_size)))
                                             step_size
                                     in if half_quantity < min_qty then (self, False, [])
                                        else submit_close self ex symbol position_amt entry_price
                                               half_quantity)))))))"

text \<open>
  The loop \<^verbatim>\<open>for position in positions\<close> of \<^verbatim>\<open>check_and_execute_take_profit\<close>, with
  the orders placed so far. A missing entry price, or a division by zero in the price
  ratio, raises; the handler around the whole method ends the run there.
\<close>

fun check_positions ::
  "monitor \<Rightarrow> exchange \<Rightarrow> position list \<Rightarrow> order_request list \<Rightarrow> monitor \<times> order_request list" where
  "check_positions self ex [] sent = (self, sent)"
| "check_positions self ex (position # rest) sent =
     (let symbol = pos_symbol position; position_amt = positionAmt position in
      case entryPrice position of
        None \<Rightarrow> (self, sent)
      | Some entry_price \<Rightarrow>
          if symbol \<in> take_profit_executed self then check_positions self ex rest sent
          else
            (case get_current_price ex symbol of
               None \<Rightarrow> check_positions self ex rest sent
             | Some current_price \<Rightarrow>
                 if (position_amt > 0 \<and> entry_price = 0) \<or> (\<not> position_amt > 0 \<and> current_price = 0)
                 then (self, sent)
                 else
                   (let price_ratio = (if position_amt > 0 then current_price / entry_price
                                       else entry_price / current_price)
                    in if profit_threshold self \<le> price_ratio then
                         (case take_profit_half_position self ex symbol position of
                            (self1, ok, requests) \<Rightarrow> check_positions self1 ex rest (sent @ requests))
                       else check_positions self ex rest sent)))"

text \<open>
  \<^verbatim>\<open>check_and_execute_take_profit\<close>: with no position it returns at once; otherwise the
  symbols without a position are removed from the set, and the positions are checked.
\<close>

definition check_and_execute_take_profit :: "monitor \<Rightarrow> exchange \<Rightarrow> monitor \<times> order_request list" where
  "check_and_execute_take_profit self ex =
     (let positions = get_positions ex in
      if positions = [] then (self, [])
      else
        (let current_position_symbols = set (map pos_symbol positions);
             self1 = self\<lparr>take_profit_executed :=
                       Set.filter (\<lambda>symbol. symbol \<in> current_position_symbols)
                         (take_profit_executed self)\<rparr>
         in check_positions self1 ex positions []))"

text \<open>Half of the position rounded down to a whole number of steps, as the specification says.\<close>

definition half_rounded_down :: "rat \<Rightarrow> rat \<Rightarrow> rat" where
  "half_rounded_down position_amt step_size = of_int \<lfloor>\<bar>position_amt\<bar> / 2 / step_size\<rfloor> * step_size"

text \<open>
  Exchanges for one symbol with step size 1 and minimum quantity 1, at the price 200: with
  no position at all, and with a long position of 3.5 entered at 100.
\<close>

definition flat_exchange :: exchange where
  "flat_exchange =
     \<lparr>symbol_ticker = (\<lambda>s. Inr 200),
      exchange_info = Inr [xusdt_info],
      position_information = Inr [],
      open_orders = (\<lambda>s. Inr []),
      cancel_order = (\<lambda>s i. Inr ()),
      create_order = (\<lambda>r. Inr \<lparr>orderId = 21, order_type = ''MARKET'', reduceOnly = True,
                                 order_status = ''NEW''\<rparr>),
      get_order = (\<lambda>s i. Inl no_answer),
      klines = (\<lambda>s. Inl no_answer)\<rparr>"

definition long_position :: position where
  "long_position =
     \<lparr>pos_symbol = ''XUSDT'', positionAmt = 7 / 2, entryPrice = Some 100, markPrice = Some 200\<rparr>"

definition long_exchange :: exchange where
  "long_exchange = flat_exchange\<lparr>position_information := Inr [long_position]\<rparr>"

definition fresh_monitor :: monitor where
  "fresh_monitor = \<lparr>profit_threshold = 13 / 10, take_profit_executed = {}\<rparr>"

definition closed_once :: monitor where
  "closed_once = \<lparr>profit_threshold = 13 / 10, take_profit_executed = {''XUSDT''}\<rparr>"

definition small_position :: position where
  "small_position =
     \<lparr>pos_symbol = ''XUSDT'', positionAmt = 1, entryPrice = Some 100, markPrice = Some 200\<rparr>"

text \<open>
  A long position whose amount the exchange reports as \<^verbatim>\<open>'0.6'\<close>, for an instrument
  whose step size and minimum quantity it reports as \<^verbatim>\<open>'0.1'\<close>: the records hold the
  doubles that \<^verbatim>\<open>float\<close> makes of these texts.
\<close>

definition tenths_position :: position where
  "tenths_position =
     \<lparr>pos_symbol = ''XUSDT'', positionAmt = round_double (6 / 10), entryPrice = Some 100,
      markPrice = Some 200\<rparr>"

definition tenths_info :: symbol_info where
  "tenths_info =
     \<lparr>si_symbol = ''XUSDT'', si_status = ''TRADING'',
      filters = [\<lparr>filterType = ''LOT_SIZE'', stepSize = round_double (1 / 10),
                  minQty = round_double (1 / 10)\<rparr>],
      quantityPrecision = Some 1, pricePrecision = 2\<rparr>"

definition tenths_exchange :: exchange where
  "tenths_exchange =
     flat_exchange\<lparr>exchange_info := Inr [tenths_info],
                     position_information := Inr [tenths_position]\<rparr>"

section \<open>Lemmas on the retry wrapper\<close>

lemma attempt_loop_no_retry_first:
  assumes "request_func a = Raises e" and "is_no_retry e"
  shows "attempt_loop request_func (a # rest) eff = (Inl e, eff\<lparr>attempts := attempts eff + 1\<rparr>)"
  using assms by simp

lemma attempt_loop_all_transient:
  assumes "\<forall>a \<in> set as. request_func a = Raises (err a) \<and> transient (err a)"
  shows "attempt_loop request_func as eff =
     (let recorded = (if as = [] then last_exception eff else Some (err (last as))) in
      (Inl (case recorded of Some e \<Rightarrow> e | None \<Rightarrow> unknown_request_error),
       eff\<lparr>attempts := attempts eff + length as,
           last_exception := recorded,
           sleeps := sleeps eff + length as\<rparr>))"
  using assms
proof (induction as arbitrary: eff)
  case Nil
  then show ?case by (simp split: option.splits)
next
  case (Cons a as)
  from Cons.prems have a: "request_func a = Raises (err a)" "\<not> is_no_retry (err a)"
    "\<not> is_time_sync_error (err a)"
    by (simp_all add: transient_def)
  from Cons.prems have rest: "\<forall>a \<in> set as. request_func a = Raises (err a) \<and> transient (err a)"
    by simp
  show ?case
    by (simp add: a Cons.IH [OF rest] Let_def)
qed

lemma attempt_loop_all_time_sync:
  assumes "\<forall>a \<in> set as. request_func a = Raises (err a) \<and> is_time_sync_error (err a) \<and> \<not> is_no_retry (err a)"
  shows "attempt_loop request_func as eff =
     (Inl (case last_exception eff of Some e \<Rightarrow> e | None \<Rightarrow> unknown_request_error),
      eff\<lparr>attempts := attempts eff + length as,
          resyncs := resyncs eff + length as,
          sleeps := sleeps eff + length as\<rparr>)"
  using assms
proof (induction as arbitrary: eff)
  case Nil
  then show ?case by (simp split: option.splits)
next
  case (Cons a as)
  then show ?case by simp
qed

lemma time_sync_error_not_no_retry: "is_time_sync_error e \<Longrightarrow> \<not> is_no_retry e"
  by (simp add: is_time_sync_error_def is_no_retry_def no_retry_codes_def)

section \<open>Lemmas on rounding\<close>

lemma py_round_of_int [simp]: "py_round (of_int n) = n"
  by (simp add: py_round_def)

text \<open>Rounding to the nearest integer moves a number by at most one half.\<close>

lemma py_round_near: "\<bar>of_int (py_round x) - x\<bar> \<le> 1 / 2"
proof -
  define f where "f = \<lfloor>x\<rfloor>"
  have lo: "of_int f \<le> x" and hi: "x < of_int f + 1"
    unfolding f_def by linarith+
  show ?thesis
    using lo hi by (auto simp: py_round_def Let_def f_def [symmetric])
qed

text \<open>The nearest integer is found by its distance; a tie goes to the even neighbour.\<close>

lemma py_round_unique:
  assumes "\<bar>x - of_int n\<bar> < 1 / 2"
  shows "py_round x = n"
proof (cases "of_int n \<le> x")
  case True
  with assms have "\<lfloor>x\<rfloor> = n"
    by (simp add: floor_eq_iff abs_less_iff)
  with True assms show ?thesis
    by (simp add: py_round_def Let_def abs_less_iff)
next
  case False
  with assms have f: "\<lfloor>x\<rfloor> = n - 1"
    by (simp add: floor_eq_iff abs_less_iff)
  from False assms have "1 / 2 < x - of_int (n - 1)"
    by (simp add: abs_less_iff)
  with f show ?thesis
    by (simp add: py_round_def Let_def)
qed

lemma py_round_tie:
  "py_round (of_int n + 1 / 2) = (if even n then n else n + 1)"
proof -
  have "\<lfloor>of_int n + (1 / 2 :: rat)\<rfloor> = n"
    by (simp add: floor_eq_iff)
  then show ?thesis
    by (simp add: py_round_def Let_def)
qed

lemma py_round_cases:
  "\<bar>x - of_int (py_round x)\<bar> < 1 / 2 \<or> x = of_int \<lfloor>x\<rfloor> + 1 / 2"
proof -
  have lo: "of_int \<lfloor>x\<rfloor> \<le> x" and hi: "x < of_int \<lfloor>x\<rfloor> + 1"
    by linarith+
  show ?thesis
    using lo hi by (auto simp: py_round_def Let_def abs_less_iff)
qed

lemma py_round_minus: "py_round (- x) = - py_round x"
proof -
  from py_round_cases [of x] show ?thesis
  proof
    assume "\<bar>x - of_int (py_round x)\<bar> < 1 / 2"
    then have "\<bar>- x - of_int (- py_round x)\<bar> < 1 / 2"
      by (simp add: abs_minus_commute)
    then show ?thesis by (rule py_round_unique)
  next
    assume tie: "x = of_int \<lfloor>x\<rfloor> + 1 / 2"
    define m where "m = \<lfloor>x\<rfloor>"
    from tie have x: "x = of_int m + 1 / 2" by (simp add: m_def)
    have mx: "- x = of_int (- m - 1) + 1 / 2" by (simp add: x)
    have "py_round (- x) = (if even (- m - 1) then - m - 1 else - m - 1 + 1)"
      unfolding mx by (rule py_round_tie)
    moreover have "py_round x = (if even m then m else m + 1)"
      unfolding x by (rule py_round_tie)
    ultimately show ?thesis by auto
  qed
qed

lemma py_round_nonneg: "0 \<le> x \<Longrightarrow> 0 \<le> py_round x"
proof -
  assume "0 \<le> x"
  then have "0 \<le> \<lfloor>x\<rfloor>" by simp
  then show ?thesis by (simp add: py_round_def Let_def)
qed

text \<open>\<^verbatim>\<open>int(x)\<close> and the reading in milliseconds follow the order of their arguments.\<close>

lemma py_int_mono: "x \<le> y \<Longrightarrow> py_int x \<le> py_int y"
proof -
  assume xy: "x \<le> y"
  show ?thesis
  proof (cases "0 \<le> x")
    case True
    with xy show ?thesis by (simp add: py_int_def floor_mono)
  next
    case False
    then have "x \<le> 0" by simp
    then have cx: "\<lceil>x\<rceil> \<le> 0" by (simp add: ceiling_le_iff)
    show ?thesis
    proof (cases "0 \<le> y")
      case True
      then have "0 \<le> \<lfloor>y\<rfloor>" by simp
      with cx have "\<lceil>x\<rceil> \<le> \<lfloor>y\<rfloor>" by (rule order_trans)
      with \<open>\<not> 0 \<le> x\<close> True show ?thesis by (simp add: py_int_def)
    next
      case False
      with xy \<open>\<not> 0 \<le> x\<close> show ?thesis by (simp add: py_int_def ceiling_mono)
    qed
  qed
qed

lemma py_ms_mono: "x \<le> y \<Longrightarrow> py_ms x \<le> py_ms y"
  by (simp add: py_ms_def py_int_mono)

section \<open>Lemmas on rounding to a double\<close>

text \<open>The binary exponent brackets the number between two consecutive powers of two.\<close>

lemma binade_bounds:
  assumes "x \<noteq> 0"
  shows "power_int 2 (binade x) \<le> \<bar>x\<bar> \<and> \<bar>x\<bar> < power_int 2 (binade x + 1)"
proof -
  obtain a b where ab: "quotient_of \<bar>x\<bar> = (a, b)"
    by (cases "quotient_of \<bar>x\<bar>")
  from ab have b: "0 < b"
    by (rule quotient_of_denom_pos)
  from ab have x: "\<bar>x\<bar> = of_int a / of_int b"
    by (rule quotient_of_div)
  from assms have "0 < \<bar>x\<bar>" by simp
  with x b have a: "0 < a"
    by (simp add: zero_less_divide_iff)
  define la where "la = floorlog 2 (nat a)"
  define lb where "lb = floorlog 2 (nat b)"
  define d where "d = int la - int lb"
  define A :: rat where "A = of_int a"
  define B :: rat where "B = of_int b"
  have bits: "(of_int n :: rat) < 2 ^ floorlog 2 (nat n) \<and> 2 ^ floorlog 2 (nat n) \<le> 2 * (of_int n :: rat)"
    if n: "0 < n" for n :: int
  proof -
    define l where "l = floorlog 2 (nat n)"
    from floorlog_bounds [of "nat n" 2] n
    have lo: "2 ^ (l - 1) \<le> nat n" and hi: "nat n < 2 ^ l"
      by (simp_all add: l_def)
    have "l \<noteq> 0"
    proof
      assume "l = 0"
      with hi n show False by simp
    qed
    then obtain m where l: "l = Suc m"
      by (cases l) auto
    from lo l have "2 * 2 ^ m \<le> 2 * nat n" by simp
    then have "(2 :: nat) ^ l \<le> 2 * nat n" by (simp add: l)
    then have "int (2 ^ l) \<le> int (2 * nat n)" by (simp only: of_nat_le_iff)
    with n have lo': "(2 :: int) ^ l \<le> 2 * n" by simp
    from hi have "int (nat n) < int (2 ^ l)" by (simp only: of_nat_less_iff)
    with n have hi': "n < (2 :: int) ^ l" by simp
    from hi' have "(of_int n :: rat) < of_int (2 ^ l)" by (simp only: of_int_less_iff)
    moreover from lo' have "(of_int (2 ^ l) :: rat) \<le> of_int (2 * n)" by (simp only: of_int_le_iff)
    ultimately show ?thesis by (simp add: l_def)
  qed
  from bits [OF a] have ah: "A < 2 ^ la" and al: "2 ^ la \<le> 2 * A"
    by (simp_all add: A_def la_def)
  from bits [OF b] have bh: "B < 2 ^ lb" and bl: "2 ^ lb \<le> 2 * B"
    by (simp_all add: B_def lb_def)
  have A: "0 < A" and B: "0 < B"
    using a b by (simp_all add: A_def B_def)
  have pd: "power_int 2 d = (2 :: rat) ^ la / 2 ^ lb"
    by (simp add: d_def power_int_diff)
  have pd1: "power_int 2 (d + 1) = 2 * ((2 :: rat) ^ la / 2 ^ lb)"
    by (simp add: power_int_add pd)
  have pdm: "power_int 2 (d - 1) = ((2 :: rat) ^ la / 2 ^ lb) / 2"
    by (simp add: power_int_diff pd)
  have xab: "\<bar>x\<bar> = A / B"
    by (simp add: x A_def B_def)
  have "2 ^ la * B \<le> 2 * A * B"
    using al B by (simp add: mult_right_mono)
  also have "\<dots> \<le> 2 * A * 2 ^ lb"
    using bh A by (simp add: mult_left_mono)
  finally have lower: "(2 :: rat) ^ la / 2 ^ lb / 2 \<le> A / B"
    using B by (simp add: field_simps)
  have "A * 2 ^ lb \<le> A * (2 * B)"
    using bl A by (simp add: mult_left_mono)
  also have "\<dots> < 2 ^ la * (2 * B)"
    using ah B by (simp add: mult_strict_right_mono)
  finally have upper: "A / B < 2 * ((2 :: rat) ^ la / 2 ^ lb)"
    using B by (simp add: field_simps)
  have b_eq: "binade x = (if \<bar>x\<bar> < power_int 2 d then d - 1 else d)"
    by (simp add: binade_def ab Let_def d_def la_def lb_def)
  show ?thesis
  proof (cases "\<bar>x\<bar> < power_int 2 d")
    case True
    with lower show ?thesis
      by (simp add: b_eq pdm xab)
  next
    case False
    with upper show ?thesis
      by (simp add: b_eq pd1 xab)
  qed
qed

text \<open>The bracket determines the exponent.\<close>

lemma power_int_2_less_imp:
  assumes "power_int (2 :: rat) m < power_int 2 n"
  shows "m < n"
proof (rule ccontr)
  assume "\<not> m < n"
  then have "n \<le> m" by simp
  then have "power_int (2 :: rat) n \<le> power_int 2 m"
    by (rule power_int_increasing) simp
  with assms show False by simp
qed

lemma binade_unique:
  assumes "power_int 2 e \<le> \<bar>x\<bar>" "\<bar>x\<bar> < power_int 2 (e + 1)"
  shows "binade x = e"
proof -
  have "(0 :: rat) < power_int 2 e" by simp
  with assms(1) have "0 < \<bar>x\<bar>" by linarith
  then have "x \<noteq> 0" by auto
  from binade_bounds [OF this]
  have lo: "power_int 2 (binade x) \<le> \<bar>x\<bar>" and hi: "\<bar>x\<bar> < power_int 2 (binade x + 1)"
    by simp_all
  have "power_int (2 :: rat) e < power_int 2 (binade x + 1)"
    using assms(1) hi by (rule le_less_trans)
  then have 1: "e < binade x + 1"
    by (rule power_int_2_less_imp)
  have "power_int (2 :: rat) (binade x) < power_int 2 (e + 1)"
    using lo assms(2) by (rule le_less_trans)
  then have 2: "binade x < e + 1"
    by (rule power_int_2_less_imp)
  from 1 2 show ?thesis by simp
qed

text \<open>Rounding to a double changes a number by at most the fraction \<open>2\<^sup>-\<^sup>5\<^sup>3\<close> of it.\<close>

lemma round_double_error: "\<bar>round_double x - x\<bar> \<le> \<bar>x\<bar> / 2 ^ 53"
proof (cases "x = 0")
  case True
  then show ?thesis by (simp add: round_double_def)
next
  case False
  define e where "e = binade x"
  define p :: rat where "p = power_int 2 (52 - e)"
  have p: "0 < p" by (simp add: p_def)
  have r: "round_double x = of_int (py_round (x * p)) / p"
    using False by (simp add: round_double_def Let_def e_def p_def)
  from binade_bounds [OF False] have lo: "power_int 2 e \<le> \<bar>x\<bar>"
    by (simp add: e_def)
  have pe: "p * power_int 2 e = 2 ^ 52"
    by (simp add: p_def power_int_diff)
  have "\<bar>of_int (py_round (x * p)) - x * p\<bar> \<le> 1 / 2"
    by (rule py_round_near)
  then have "\<bar>of_int (py_round (x * p)) - x * p\<bar> / p \<le> 1 / 2 / p"
    by (rule divide_right_mono) (use p in simp)
  moreover have "\<bar>of_int (py_round (x * p)) - x * p\<bar> / p = \<bar>round_double x - x\<bar>"
  proof -
    have "round_double x - x = (of_int (py_round (x * p)) - x * p) / p"
      using p by (simp add: r field_simps)
    then show ?thesis using p by simp
  qed
  ultimately have 1: "\<bar>round_double x - x\<bar> \<le> 1 / 2 / p"
    by simp
  have "1 / 2 / p = power_int 2 e / 2 ^ 53"
    using p pe by (simp add: field_simps)
  also have "\<dots> \<le> \<bar>x\<bar> / 2 ^ 53"
    using lo by (simp add: divide_right_mono)
  finally show ?thesis
    using 1 by simp
qed

text \<open>The double nearest to a number with a known binary exponent.\<close>

lemma round_double_eq:
  assumes "power_int 2 e \<le> \<bar>x\<bar>" "\<bar>x\<bar> < power_int 2 (e + 1)"
  shows "round_double x = of_int (py_round (x * power_int 2 (52 - e))) / power_int 2 (52 - e)"
proof -
  have "(0 :: rat) < power_int 2 e" by simp
  with assms(1) have "0 < \<bar>x\<bar>" by linarith
  then have "x \<noteq> 0" by auto
  with binade_unique [OF assms] show ?thesis
    by (simp add: round_double_def Let_def)
qed

text \<open>A number with at most 53 significant bits is a double.\<close>

lemma round_double_representable:
  assumes "\<bar>m\<bar> < 2 ^ 53"
  shows "round_double (of_int m * power_int 2 t) = of_int m * power_int 2 t"
proof (cases "m = 0")
  case True
  then show ?thesis by (simp add: round_double_def)
next
  case False
  define x :: rat where "x = of_int m * power_int 2 t"
  define e where "e = binade x"
  have x0: "x \<noteq> 0" using False by (simp add: x_def)
  from binade_bounds [OF x0] have lo: "power_int 2 e \<le> \<bar>x\<bar>"
    by (simp add: e_def)
  have "\<bar>of_int m :: rat\<bar> < of_int (2 ^ 53)"
    using assms by (simp only: of_int_abs [symmetric] of_int_less_iff)
  then have "\<bar>x\<bar> < 2 ^ 53 * power_int 2 t"
    by (simp add: x_def abs_mult)
  also have "\<dots> = power_int 2 (53 + t)"
    by (simp add: power_int_add)
  finally have "power_int (2 :: rat) e < power_int 2 (53 + t)"
    using lo by linarith
  then have "e < 53 + t" by (rule power_int_2_less_imp)
  then have "0 \<le> t + 52 - e" by simp
  then obtain k where k: "t + 52 - e = int k"
    by (rule nonneg_int_cases)
  have "x * power_int 2 (52 - e) = of_int m * power_int 2 (t + (52 - e))"
    by (simp add: x_def power_int_add)
  also have "t + (52 - e) = int k" using k by simp
  finally have "x * power_int 2 (52 - e) = of_int (m * 2 ^ k)"
    by simp
  then have "py_round (x * power_int 2 (52 - e)) = m * 2 ^ k"
    by (simp only: py_round_of_int)
  then have "round_double x = of_int (m * 2 ^ k) / power_int 2 (52 - e)"
    using x0 by (simp add: round_double_def Let_def e_def)
  also have "\<dots> = of_int m * (power_int 2 (int k) / power_int 2 (52 - e))"
    by simp
  also have "power_int 2 (int k) / power_int (2 :: rat) (52 - e) = power_int 2 (int k - (52 - e))"
    by (simp add: power_int_diff)
  also have "int k - (52 - e) = t" using k by simp
  finally show ?thesis by (simp add: x_def)
qed


section \<open>Formatting a number and reading it back\<close>

lemma digit_char_val: "d < 10 \<Longrightarrow> digit_val (digit_char d) = d"
  by (simp add: digit_val_def digit_char_def)

lemma digit_char_is_digit: "d < 10 \<Longrightarrow> is_digit (digit_char d)"
  by (simp add: is_digit_def digit_char_def)

lemma nat_of_digits_Nil: "nat_of_digits [] = 0"
  by (simp add: nat_of_digits_def)

lemma nat_of_digits_snoc: "nat_of_digits (s @ [c]) = 10 * nat_of_digits s + digit_val c"
  by (simp add: nat_of_digits_def)

lemma nat_of_digits_digits_of: "nat_of_digits (digits_of n) = n"
proof (induction n rule: digits_of.induct)
  case (1 n)
  show ?case
  proof (cases "n < 10")
    case True
    then show ?thesis
      by (simp add: digits_of.simps [of n] nat_of_digits_def digit_char_val)
  next
    case False
    with 1 show ?thesis
      by (simp add: digits_of.simps [of n] nat_of_digits_snoc digit_char_val)
  qed
qed

lemma digits_of_all_digits: "list_all is_digit (digits_of n)"
proof (induction n rule: digits_of.induct)
  case (1 n)
  show ?case
  proof (cases "n < 10")
    case True
    then show ?thesis
      by (simp add: digits_of.simps [of n] digit_char_is_digit)
  next
    case False
    with 1 show ?thesis
      by (simp add: digits_of.simps [of n] digit_char_is_digit)
  qed
qed

lemma digits_of_small: "n < 10 \<Longrightarrow> digits_of n = [digit_char n]"
  by (simp add: digits_of.simps [of n])

lemma digits_of_not_empty: "digits_of n \<noteq> []"
  by (simp add: digits_of.simps [of n])

lemma length_digits_of: "n < 10 ^ p \<Longrightarrow> 0 < p \<Longrightarrow> length (digits_of n) \<le> p"
proof (induction n arbitrary: p rule: digits_of.induct)
  case (1 n)
  show ?case
  proof (cases "n < 10")
    case True
    with 1 show ?thesis
      by (simp add: digits_of.simps [of n])
  next
    case False
    with "1.prems" obtain q where p: "p = Suc q" and q: "0 < q"
      by (cases p; cases "p - 1") auto
    from "1.prems" p have "n div 10 < 10 ^ q"
      by (simp add: less_mult_imp_div_less mult.commute)
    from "1.IH" [OF False this q] False p show ?thesis
      by (simp add: digits_of.simps [of n])
  qed
qed

lemma is_digit_not_point: "is_digit c \<Longrightarrow> c \<noteq> CHR ''.''"
  by (auto simp: is_digit_def)

lemma is_digit_not_minus: "is_digit c \<Longrightarrow> c \<noteq> CHR ''-''"
  by (auto simp: is_digit_def)

lemma is_digit_zero: "is_digit CHR ''0''"
  by (simp add: is_digit_def)

lemma digit_val_zero: "digit_val CHR ''0'' = 0"
  by (simp add: digit_val_def)

lemma nat_of_digits_append:
  "nat_of_digits (s @ t) = foldl (\<lambda>a c. 10 * a + digit_val c) (nat_of_digits s) t"
  by (simp add: nat_of_digits_def)

lemma foldl_zeros:
  "foldl (\<lambda>a c. 10 * a + digit_val c) a (replicate k CHR ''0'') = a * 10 ^ k"
  by (induction k arbitrary: a) (simp_all add: digit_val_zero)

lemma nat_of_digits_trailing_zeros:
  "nat_of_digits (s @ replicate k CHR ''0'') = nat_of_digits s * 10 ^ k"
  by (simp add: nat_of_digits_append foldl_zeros)

lemma nat_of_digits_leading_zeros:
  "nat_of_digits (replicate k CHR ''0'' @ s) = nat_of_digits s"
proof -
  have "nat_of_digits (replicate k CHR ''0'') = 0"
    using nat_of_digits_trailing_zeros [of "[]" k] by (simp add: nat_of_digits_def)
  then show ?thesis
    by (simp add: nat_of_digits_append) (simp add: nat_of_digits_def)
qed

text \<open>What \<open>rstrip\<close> removes is a run of the character at the end.\<close>

lemma py_rstrip_decompose:
  "\<exists>k. s = py_rstrip c s @ replicate k c"
proof -
  let ?P = "\<lambda>d. d = c"
  have "\<forall>d \<in> set (takeWhile ?P (rev s)). d = c"
    by (auto dest: set_takeWhileD)
  then have t: "takeWhile ?P (rev s) = replicate (length (takeWhile ?P (rev s))) c"
    by (simp add: replicate_length_same)
  have "rev s = takeWhile ?P (rev s) @ dropWhile ?P (rev s)"
    by simp
  then have "s = rev (dropWhile ?P (rev s)) @ rev (takeWhile ?P (rev s))"
    by (metis rev_append rev_rev_ident)
  with t have "s = py_rstrip c s @ replicate (length (takeWhile ?P (rev s))) c"
    by (metis py_rstrip_def rev_replicate)
  then show ?thesis ..
qed

lemma py_rstrip_last: "py_rstrip c s \<noteq> [] \<Longrightarrow> last (py_rstrip c s) \<noteq> c"
proof -
  assume ne: "py_rstrip c s \<noteq> []"
  then have d: "dropWhile (\<lambda>d. d = c) (rev s) \<noteq> []"
    by (simp add: py_rstrip_def)
  then have "hd (dropWhile (\<lambda>d. d = c) (rev s)) \<noteq> c"
    using hd_dropWhile [of "\<lambda>d. d = c" "rev s"] by blast
  with d show ?thesis
    by (simp add: py_rstrip_def last_rev)
qed

lemma py_rstrip_after:
  assumes "d \<noteq> c"
  shows "py_rstrip c (pre @ d # t) = pre @ d # py_rstrip c t"
proof -
  have "dropWhile (\<lambda>e. e = c) (rev t @ d # rev pre) = dropWhile (\<lambda>e. e = c) (rev t) @ d # rev pre"
    using assms by (simp add: dropWhile_append)
  then show ?thesis
    by (simp add: py_rstrip_def)
qed

lemma py_rstrip_same:
  assumes "s = [] \<or> last s \<noteq> c"
  shows "py_rstrip c s = s"
proof (cases s rule: rev_cases)
  case Nil
  then show ?thesis by (simp add: py_rstrip_def)
next
  case (snoc pre d)
  with assms have "d \<noteq> c" by simp
  from py_rstrip_after [OF this, of pre "[]"] snoc show ?thesis
    by (simp add: py_rstrip_def)
qed

lemma py_float_parts:
  assumes w: "list_all is_digit whole" "whole \<noteq> []" and f: "list_all is_digit fraction"
  shows "py_float ((if negative then ''-'' else []) @ whole @ (if fraction = [] then [] else CHR ''.'' # fraction)) =
         Some ((if negative then - 1 else 1) *
               (of_nat (nat_of_digits whole) + of_nat (nat_of_digits fraction) / 10 ^ length fraction))"
proof -
  let ?tail = "if fraction = [] then [] else CHR ''.'' # fraction"
  let ?s = "(if negative then ''-'' else []) @ whole @ ?tail"
  from w have "is_digit (hd whole)"
    by (cases whole) simp_all
  then have hdw: "hd whole \<noteq> CHR ''-''"
    by (rule is_digit_not_minus)
  have neg: "(?s \<noteq> [] \<and> hd ?s = CHR ''-'') = negative"
    using w(2) hdw by (cases negative) simp_all
  have body: "(if negative then tl ?s else ?s) = whole @ ?tail"
    by simp
  from w(1) have nopoint: "\<forall>c \<in> set whole. c \<noteq> CHR ''.''"
    using is_digit_not_point by (fastforce simp: list_all_iff)
  have tw: "takeWhile (\<lambda>c. c \<noteq> CHR ''.'') (whole @ ?tail) = whole"
    using nopoint by simp
  have dw: "drop 1 (dropWhile (\<lambda>c. c \<noteq> CHR ''.'') (whole @ ?tail)) = fraction"
    using nopoint by simp
  show ?thesis
    unfolding py_float_def Let_def neg body tw dw
    using w f by simp
qed

lemma py_rstrip_all_digits: "list_all is_digit s \<Longrightarrow> list_all is_digit (py_rstrip c s)"
proof -
  assume a: "list_all is_digit s"
  obtain k where k: "s = py_rstrip c s @ replicate k c"
    using py_rstrip_decompose by blast
  have "set (py_rstrip c s) \<subseteq> set s"
    by (subst (2) k) simp
  with a show ?thesis
    by (auto simp: list_all_iff)
qed

lemma last_digit_not_point:
  assumes "list_all is_digit s" "s \<noteq> []"
  shows "last s \<noteq> CHR ''.''"
proof -
  from assms(2) have "last s \<in> set s" by simp
  with assms(1) have "is_digit (last s)" by (simp add: list_all_iff)
  then show ?thesis by (rule is_digit_not_point)
qed

text \<open>The text of a formatted number after the two \<open>rstrip\<close> calls.\<close>

lemma trimmed_text:
  assumes w: "list_all is_digit whole" "whole \<noteq> []" and f: "list_all is_digit fraction"
  shows "py_rstrip CHR ''.'' (py_rstrip CHR ''0'' (sign @ whole @ CHR ''.'' # fraction)) =
         sign @ whole @ (if py_rstrip CHR ''0'' fraction = [] then []
                         else CHR ''.'' # py_rstrip CHR ''0'' fraction)"
proof -
  let ?f1 = "py_rstrip CHR ''0'' fraction"
  have one: "py_rstrip CHR ''0'' (sign @ whole @ CHR ''.'' # fraction) = sign @ whole @ CHR ''.'' # ?f1"
    using py_rstrip_after [of "CHR ''.''" "CHR ''0''" "sign @ whole" fraction] by simp
  from w have lw: "last whole \<noteq> CHR ''.''"
    by (rule last_digit_not_point)
  show ?thesis
  proof (cases "?f1 = []")
    case True
    have "py_rstrip CHR ''.'' (sign @ whole @ [CHR ''.'']) = py_rstrip CHR ''.'' (sign @ whole)"
      by (simp add: py_rstrip_def)
    also have "\<dots> = sign @ whole"
      using w(2) lw by (intro py_rstrip_same) simp
    finally have two: "py_rstrip CHR ''.'' (sign @ whole @ [CHR ''.'']) = sign @ whole" .
    show ?thesis
      using True by (simp add: one two)
  next
    case False
    have "list_all is_digit ?f1"
      using f by (rule py_rstrip_all_digits)
    then have "last ?f1 \<noteq> CHR ''.''"
      using False by (rule last_digit_not_point)
    then have two: "py_rstrip CHR ''.'' (sign @ whole @ CHR ''.'' # ?f1) = sign @ whole @ CHR ''.'' # ?f1"
      using False by (intro py_rstrip_same) simp
    show ?thesis
      using False by (simp add: one two)
  qed
qed

lemma fraction_value_trimmed:
  "of_nat (nat_of_digits (py_rstrip CHR ''0'' fraction)) / (10 :: rat) ^ length (py_rstrip CHR ''0'' fraction) =
   of_nat (nat_of_digits fraction) / 10 ^ length fraction"
proof -
  let ?f1 = "py_rstrip CHR ''0'' fraction"
  obtain k where k: "fraction = ?f1 @ replicate k CHR ''0''"
    using py_rstrip_decompose by blast
  have "nat_of_digits fraction = nat_of_digits ?f1 * 10 ^ k"
    by (subst k) (rule nat_of_digits_trailing_zeros)
  moreover have "length fraction = length ?f1 + k"
    by (subst k) simp
  ultimately show ?thesis
    by (simp add: power_add)
qed

text \<open>The number read back is the number rounded to \<open>p\<close> decimal places.\<close>

lemma float_of_format_value: "float_of_format x p = Some (format_fixed x p)"
proof -
  define n where "n = nat (py_round (\<bar>x\<bar> * 10 ^ p))"
  define whole where "whole = digits_of (n div 10 ^ p)"
  define digits where "digits = digits_of (n mod 10 ^ p)"
  define fraction where "fraction = replicate (p - length digits) CHR ''0'' @ digits"
  define sign where "sign = (if x < 0 then ''-'' else [])"
  have w: "list_all is_digit whole" "whole \<noteq> []"
    by (simp_all add: whole_def digits_of_all_digits digits_of_not_empty)
  have f: "list_all is_digit fraction"
    using digits_of_all_digits [of "n mod 10 ^ p"]
    by (auto simp: fraction_def digits_def list_all_iff is_digit_zero)
  have str: "py_format_f x p = sign @ whole @ (if p = 0 then [] else CHR ''.'' # fraction)"
    by (simp add: py_format_f_def Let_def n_def whole_def digits_def fraction_def sign_def)
  have signed: "(if x < 0 then - 1 else 1) * (of_nat n :: rat) = of_int (py_round (x * 10 ^ p))"
  proof (cases "x < 0")
    case True
    then have "py_round (\<bar>x\<bar> * 10 ^ p) = - py_round (x * 10 ^ p)"
      using py_round_minus [of "x * 10 ^ p"] by simp
    moreover have "0 \<le> py_round (\<bar>x\<bar> * 10 ^ p)"
      by (rule py_round_nonneg) simp
    ultimately show ?thesis
      using True by (simp add: n_def)
  next
    case False
    then have "0 \<le> py_round (x * 10 ^ p)"
      by (intro py_round_nonneg) simp
    with False show ?thesis
      by (simp add: n_def)
  qed
  have split: "(of_nat (n div 10 ^ p) :: rat) + of_nat (n mod 10 ^ p) / 10 ^ p = of_nat n / 10 ^ p"
  proof -
    have "(of_nat (n div 10 ^ p * 10 ^ p + n mod 10 ^ p) :: rat) = of_nat n"
      by (simp only: div_mult_mod_eq)
    then have "(of_nat (n div 10 ^ p) :: rat) * 10 ^ p + of_nat (n mod 10 ^ p) = of_nat n"
      by (simp only: of_nat_add of_nat_mult of_nat_power of_nat_numeral)
    then show ?thesis
      by (simp add: field_simps)
  qed
  have parts: "py_float (sign @ whole @ (if digits = [] then [] else CHR ''.'' # digits)) =
      Some ((if x < 0 then - 1 else 1) *
            (of_nat (nat_of_digits whole) + of_nat (nat_of_digits digits) / 10 ^ length digits))"
    if "list_all is_digit digits" for digits
    unfolding sign_def using w that by (rule py_float_parts)
  show ?thesis
  proof (cases "p = 0")
    case True
    have "\<forall>c \<in> set whole. c \<noteq> CHR ''.''"
      using w(1) is_digit_not_point by (fastforce simp: list_all_iff)
    then have nopoint: "CHR ''.'' \<notin> set (sign @ whole)"
      by (auto simp: sign_def)
    from str True have plain: "py_format_f x p = sign @ whole"
      by simp
    have "float_of_format x p = py_float (sign @ whole @ (if ([] :: string) = [] then [] else CHR ''.'' # []))"
      using nopoint by (simp add: float_of_format_def Let_def plain)
    also have "\<dots> = Some ((if x < 0 then - 1 else 1) *
        (of_nat (nat_of_digits whole) + of_nat (nat_of_digits []) / 10 ^ length ([] :: string)))"
      by (rule parts) simp
    also have "\<dots> = Some (format_fixed x p)"
      using signed True
      by (simp add: whole_def nat_of_digits_digits_of format_fixed_def nat_of_digits_Nil)
    finally show ?thesis .
  next
    case False
    then have pos: "0 < p" by simp
    have "length digits \<le> p"
      unfolding digits_def using pos by (intro length_digits_of) simp_all
    then have len: "length fraction = p"
      by (simp add: fraction_def)
    have val: "nat_of_digits fraction = n mod 10 ^ p"
      by (simp add: fraction_def nat_of_digits_leading_zeros digits_def nat_of_digits_digits_of)
    let ?f1 = "py_rstrip CHR ''0'' fraction"
    from str False have pointed: "py_format_f x p = sign @ whole @ CHR ''.'' # fraction"
      by simp
    have "float_of_format x p =
        py_float (py_rstrip CHR ''.'' (py_rstrip CHR ''0'' (sign @ whole @ CHR ''.'' # fraction)))"
      by (simp add: float_of_format_def Let_def pointed)
    also have "\<dots> = py_float (sign @ whole @ (if ?f1 = [] then [] else CHR ''.'' # ?f1))"
      by (simp only: trimmed_text [OF w f])
    also have "\<dots> = Some ((if x < 0 then - 1 else 1) *
        (of_nat (nat_of_digits whole) + of_nat (nat_of_digits ?f1) / 10 ^ length ?f1))"
      using f by (intro parts py_rstrip_all_digits)
    also have "\<dots> = Some ((if x < 0 then - 1 else 1) *
        (of_nat (n div 10 ^ p) + of_nat (n mod 10 ^ p) / 10 ^ p))"
      by (simp only: fraction_value_trimmed val len whole_def nat_of_digits_digits_of)
    also have "\<dots> = Some (format_fixed x p)"
      using signed by (simp only: split format_fixed_def) (simp add: field_simps)
    finally show ?thesis .
  qed
qed

lemma float_of_format_fallback_value: "float_of_format_fallback x = Some (format_fixed x 8)"
proof -
  have "CHR ''.'' \<in> set (py_format_f x 8)"
    by (simp add: py_format_f_def Let_def)
  then have "float_of_format_fallback x = float_of_format x 8"
    by (simp add: float_of_format_fallback_def float_of_format_def Let_def)
  then show ?thesis
    by (simp add: float_of_format_value)
qed

text \<open>
  Formatting to \<open>p\<close> decimal places leaves a number with at most \<open>p\<close> decimal places
  as it is.
\<close>

lemma format_fixed_exact:
  assumes "x * 10 ^ p = of_int n"
  shows "format_fixed x p = x"
proof -
  have "format_fixed x p = of_int n / 10 ^ p"
    by (simp add: format_fixed_def assms)
  also have "\<dots> = x"
    using assms by (simp add: field_simps)
  finally show ?thesis .
qed

section \<open>Lemmas on order sizing\<close>

text \<open>
  When the step size has no more decimal places than the quantity is formatted with,
  formatting changes nothing, and the quantity returned is the rounded one: a whole number
  of steps, not below the minimum, and within half a step of the raw quantity.
\<close>

lemma calculate_quantity_conforming:
  assumes ret: "calculate_quantity ex symbol usdt_amount leverage = Some q"
    and price: "symbol_ticker ex symbol = Inr price"
    and info: "exchange_info ex = Inr symbols" "find (\<lambda>s. si_symbol s = symbol) symbols = Some info"
    and lot: "find (\<lambda>f. filterType f = ''LOT_SIZE'') (filters info) = Some lot"
    and prec: "quantityPrecision info = Some p" "0 \<le> p"
    and fine: "stepSize lot * 10 ^ nat p = of_int m"
  shows "q = of_int (py_round (usdt_amount * leverage / price / stepSize lot)) * stepSize lot \<and>
         multiple_of (stepSize lot) q \<and> minQty lot \<le> q \<and>
         \<bar>q - usdt_amount * leverage / price\<bar> \<le> \<bar>stepSize lot\<bar> / 2"
proof -
  define k where "k = py_round (usdt_amount * leverage / price / stepSize lot)"
  define quantity where "quantity = of_int k * stepSize lot"
  have "quantity * 10 ^ nat p = of_int (k * m)"
    using fine by (simp add: quantity_def mult.assoc)
  then have same: "format_fixed quantity (nat p) = quantity"
    by (rule format_fixed_exact)
  from ret have nz: "price \<noteq> 0" "stepSize lot \<noteq> 0" and ge: "\<not> quantity < minQty lot"
    and q: "q = format_fixed quantity (nat p)"
    by (auto simp: calculate_quantity_def price info lot prec Let_def k_def quantity_def
        float_of_format_value split: if_splits)
  have "\<bar>of_int k - usdt_amount * leverage / price / stepSize lot\<bar> \<le> 1 / 2"
    unfolding k_def by (rule py_round_near)
  then have "\<bar>of_int k - usdt_amount * leverage / price / stepSize lot\<bar> * \<bar>stepSize lot\<bar>
      \<le> 1 / 2 * \<bar>stepSize lot\<bar>"
    by (rule mult_right_mono) simp
  then have near: "\<bar>quantity - usdt_amount * leverage / price\<bar> \<le> \<bar>stepSize lot\<bar> / 2"
    using nz by (simp add: quantity_def abs_mult [symmetric] left_diff_distrib)
  have "multiple_of (stepSize lot) quantity"
    unfolding multiple_of_def quantity_def by blast
  with q same ge near show ?thesis
    by (simp add: quantity_def k_def)
qed

section \<open>Lemmas on the clock synchronisation manager\<close>

lemma query_endpoints_unreachable:
  assumes "\<forall>e \<in> set eps. get e = Unreachable"
  shows "query_endpoints get eps p = p\<lparr>queried := queried p @ eps\<rparr>"
  using assms by (induction eps arbitrary: p) simp_all

text \<open>The loop computes what \<open>accepted_endpoint\<close> and \<open>until_fast\<close> say.\<close>

lemma accepted_Some_sample:
  assumes "accepted_endpoint get eps = Some e"
  shows "\<exists>s. sample_of (get e) = Some s"
proof (cases "find (fast get) eps")
  case None
  with assms have ne: "filter (replied get) eps \<noteq> []" and e: "e = last (filter (replied get) eps)"
    by (auto simp: accepted_endpoint_def split: if_splits)
  from ne have "last (filter (replied get) eps) \<in> set (filter (replied get) eps)"
    by (rule last_in_set)
  with e have "replied get e" by simp
  then show ?thesis by (simp add: replied_def)
next
  case (Some a)
  with assms have "e = a" by (simp add: accepted_endpoint_def)
  with Some have "fast get e" by (auto simp: find_Some_iff)
  then show ?thesis by (auto simp: fast_def split: option.splits)
qed

lemma accepted_Cons:
  "accepted_endpoint get (a # eps) =
     (if fast get a then Some a
      else (case accepted_endpoint get eps of
              Some e \<Rightarrow> Some e
            | None \<Rightarrow> if replied get a then Some a else None))"
  by (auto simp: accepted_endpoint_def split: option.splits)

lemma until_fast_Cons:
  "until_fast get (a # eps) = (if fast get a then [a] else a # until_fast get eps)"
  by (simp add: until_fast_def)

lemma query_endpoints_accepted:
  "query_endpoints get eps p =
     (case accepted_endpoint get eps of
        None \<Rightarrow> p\<lparr>queried := queried p @ until_fast get eps\<rparr>
      | Some e \<Rightarrow>
          (case sample_of (get e) of
             None \<Rightarrow> p\<lparr>queried := queried p @ until_fast get eps\<rparr>
           | Some s \<Rightarrow> \<lparr>binance_time = remote_time s, network_delay = delay s,
                        queried = queried p @ until_fast get eps\<rparr>))"
proof (induction eps arbitrary: p)
  case Nil
  then show ?case by (simp add: accepted_endpoint_def until_fast_def)
next
  case (Cons a eps)
  show ?case
  proof (cases "get a")
    case Unreachable
    then have nf: "\<not> fast get a" and nr: "\<not> replied get a"
      by (simp_all add: fast_def replied_def)
    show ?thesis
      using Unreachable nf nr
      by (simp add: Cons.IH accepted_Cons until_fast_Cons split: option.splits)
  next
    case (Reply t1 t2 st)
    then have ra: "replied get a"
      by (simp add: replied_def)
    show ?thesis
    proof (cases "fast get a")
      case True
      with Reply have "py_ms t2 - py_ms t1 < 500"
        by (simp add: fast_def)
      then show ?thesis
        using Reply True by (simp add: accepted_Cons until_fast_Cons Let_def)
    next
      case False
      with Reply have slow: "\<not> py_ms t2 - py_ms t1 < 500"
        by (simp add: fast_def)
      show ?thesis
      proof (cases "accepted_endpoint get eps")
        case None
        then show ?thesis
          using Reply slow False ra by (simp add: Cons.IH accepted_Cons until_fast_Cons Let_def)
      next
        case (Some e)
        then obtain s where s: "sample_of (get e) = Some s"
          using accepted_Some_sample by blast
        show ?thesis
          using Reply slow False Some s by (simp add: Cons.IH accepted_Cons until_fast_Cons Let_def)
      qed
    qed
  qed
qed

text \<open>A run ends synchronised exactly when it is not skipped and the loop ends with a remote time other than 0.\<close>

lemma sync_time_Synced_iff:
  "snd (sync_time self force w) = Synced \<longleftrightarrow>
     (force \<or> \<not> entry_clock w - last_sync_time self < min_sync_interval self) \<and>
     binance_time (query_endpoints (fetch w) endpoints
        \<lparr>binance_time = 0, network_delay = 1000, queried = []\<rparr>) \<noteq> 0"
  by (auto simp: sync_time_def Let_def)

text \<open>
  The offset is computed from the time at which \<^verbatim>\<open>sync_time\<close> was entered, whichever
  endpoint answers. When the first endpoint fails after five seconds and the second answers
  at once, the stored offset is five seconds more than the remote time minus the send time
  plus half the delay (which is 5000 ms here).
\<close>

lemma sync_time_offset_from_entry_time:
  "sample_of (fetch late_world ''https://api1.binance.com/api/v3/time'') =
     Some \<lparr>send_time = 1700000005000, delay = 40, remote_time = 1700000010020\<rparr> \<and>
   offset_spec \<lparr>send_time = 1700000005000, delay = 40, remote_time = 1700000010020\<rparr> = 5000 \<and>
   time_offset (fst (sync_time (init_time_sync 1800 10000) False late_world)) = 10000"
  by code_simp

text \<open>
  Remote times after the epoch keep the manager in a consistent state, and in a consistent
  state \<^verbatim>\<open>get_synced_timestamp\<close> returns the extrapolated value on both of its branches
  (in the state of \<^verbatim>\<open>__init__\<close> the fallback \<^verbatim>\<open>current_local_time + self.time_offset\<close>
  is the same number).
\<close>

lemma query_endpoints_from_epoch:
  assumes "0 \<le> binance_time p" and "\<forall>e \<in> set eps. from_epoch (get e)"
  shows "0 \<le> binance_time (query_endpoints get eps p)"
  using assms
proof (induction eps arbitrary: p)
  case Nil
  then show ?case by simp
next
  case (Cons a eps)
  show ?case
  proof (cases "get a")
    case Unreachable
    with Cons show ?thesis by simp
  next
    case (Reply t1 t2 st)
    from Cons.prems(2) Reply have "0 \<le> server_time_or_0 st"
      by (cases st) (simp_all add: server_time_or_0_def)
    with Cons Reply show ?thesis by (simp add: Let_def)
  qed
qed

lemma sync_time_consistent:
  assumes "consistent_sync self" and "reports_from_epoch w"
  shows "consistent_sync (fst (sync_time self force w))"
proof -
  let ?p = "query_endpoints (fetch w) endpoints \<lparr>binance_time = 0, network_delay = 1000, queried = []\<rparr>"
  from assms(2) have "\<forall>e \<in> set endpoints. from_epoch (fetch w e)"
    by (simp add: reports_from_epoch_def list_all_iff)
  then have "0 \<le> binance_time ?p"
    by (intro query_endpoints_from_epoch) simp_all
  with assms(1) show ?thesis
    by (auto simp: sync_time_def Let_def consistent_sync_def)
qed

lemma get_synced_timestamp_consistent:
  assumes "consistent_sync self" and "reports_from_epoch (unsynced_sync w)"
    and "reports_from_epoch (stale_sync w)"
  shows "consistent_sync (fst (get_synced_timestamp self w))"
  using assms by (simp add: get_synced_timestamp_def Let_def sync_time_consistent)

lemma get_synced_timestamp_value:
  assumes "consistent_sync (fst (get_synced_timestamp self w))"
  shows "snd (get_synced_timestamp self w) =
         last_server_time (fst (get_synced_timestamp self w)) +
           (local_time_used self w - last_local_time (fst (get_synced_timestamp self w)))"
  using assms
  by (auto simp: get_synced_timestamp_def local_time_used_def Let_def consistent_sync_def)

lemma local_time_used_cases:
  "local_time_used self w = py_ms (clock w) \<or> local_time_used self w = py_ms (clock_again w)"
  by (simp add: local_time_used_def Let_def)

section \<open>Lemmas on the stop-loss tracking map\<close>

text \<open>
  Storing an order id for a symbol leaves exactly that id for the symbol and changes no
  other symbol; a symbol never has two ids, since the map holds one dictionary per symbol
  and the dictionary one value under \<^verbatim>\<open>'stop_loss'\<close>.
\<close>

lemma stop_loss_ids_record:
  "stop_loss_ids (record_stop_loss self symbol order_id) symbol = {order_id}"
  by (auto simp: stop_loss_ids_def record_stop_loss_def)

lemma stop_loss_ids_record_other:
  "other \<noteq> symbol \<Longrightarrow>
   stop_loss_ids (record_stop_loss self symbol order_id) other = stop_loss_ids self other"
  by (simp add: stop_loss_ids_def record_stop_loss_def)

lemma stop_loss_ids_at_most_one:
  "stop_loss_ids self symbol = {} \<or> (\<exists>order_id. stop_loss_ids self symbol = {order_id})"
proof (cases "order_relations self symbol")
  case None
  then show ?thesis by (simp add: stop_loss_ids_def)
next
  case (Some relation)
  then show ?thesis
    by (cases "relation ''stop_loss''") (auto simp: stop_loss_ids_def)
qed

lemma cancel_associated_orders_other:
  "other \<noteq> symbol \<Longrightarrow>
   order_relations (fst (cancel_associated_orders self ex symbol)) other = order_relations self other"
  by (simp add: cancel_associated_orders_def split: sum.splits)

section \<open>Lemmas on the take-profit monitor\<close>

text \<open>
  Closing half of a position changes the set at most by adding the symbol, and places
  orders for that symbol only.
\<close>

lemma submit_close_effect:
  assumes "submit_close self ex symbol amt entry q = (self1, ok, requests)"
  shows "(self1 = self \<or>
          self1 = self\<lparr>take_profit_executed := insert symbol (take_profit_executed self)\<rparr>) \<and>
         (\<forall>r \<in> set requests. req_symbol r = symbol)"
  using assms
  by (auto simp: submit_close_def Let_def close_request_def split: sum.splits if_splits)

lemma take_profit_half_position_effect:
  assumes "take_profit_half_position self ex symbol position = (self1, ok, requests)"
  shows "(self1 = self \<or>
          self1 = self\<lparr>take_profit_executed := insert symbol (take_profit_executed self)\<rparr>) \<and>
         (\<forall>r \<in> set requests. req_symbol r = symbol)"
proof -
  from assms have "(self1, ok, requests) = (self, False, []) \<or>
      (\<exists>entry q. submit_close self ex symbol (positionAmt position) entry q = (self1, ok, requests))"
    by (auto simp: take_profit_half_position_def Let_def
        split: option.splits sum.splits if_splits)
  then show ?thesis
    using submit_close_effect by fastforce
qed

text \<open>
  One run of the loop: the set only grows, by symbols of the positions checked; the
  threshold stays; and no order is placed for a symbol that is in the set at the start.
\<close>

lemma check_positions_effect:
  assumes "check_positions self ex positions sent = (self1, sent1)"
  shows "take_profit_executed self \<subseteq> take_profit_executed self1 \<and>
         take_profit_executed self1 \<subseteq> take_profit_executed self \<union> set (map pos_symbol positions) \<and>
         profit_threshold self1 = profit_threshold self \<and>
         (\<forall>r \<in> set sent1. r \<in> set sent \<or> req_symbol r \<notin> take_profit_executed self)"
  using assms
proof (induction self ex positions sent arbitrary: self1 sent1 rule: check_positions.induct)
  case (1 self ex sent)
  then show ?case by simp
next
  case (2 self ex position rest sent)
  let ?symbol = "pos_symbol position"
  show ?case
  proof (cases "entryPrice position")
    case None
    with "2.prems" show ?thesis by (auto simp: Let_def)
  next
    case (Some entry_price)
    show ?thesis
    proof (cases "?symbol \<in> take_profit_executed self")
      case True
      with "2.prems" Some have "check_positions self ex rest sent = (self1, sent1)"
        by (simp add: Let_def)
      from "2.IH"(1) [OF refl refl Some True this] show ?thesis
        by auto
    next
      case False
      show ?thesis
      proof (cases "get_current_price ex ?symbol")
        case None
        with "2.prems" Some False have "check_positions self ex rest sent = (self1, sent1)"
          by (simp add: Let_def)
        from "2.IH"(2) [OF refl refl Some False None this] show ?thesis
          by auto
      next
        case price: (Some current_price)
        show ?thesis
        proof (cases "(positionAmt position > 0 \<and> entry_price = 0) \<or>
                      (\<not> positionAmt position > 0 \<and> current_price = 0)")
          case True
          with "2.prems" Some False price show ?thesis
            by (auto simp: Let_def)
        next
          case nz: False
          let ?ratio = "if positionAmt position > 0 then current_price / entry_price
                        else entry_price / current_price"
          show ?thesis
          proof (cases "profit_threshold self \<le> ?ratio")
            case low: False
            with "2.prems" Some False price nz
            have "check_positions self ex rest sent = (self1, sent1)"
              by (simp add: Let_def)
            from "2.IH"(4) [OF refl refl Some False price nz refl low this] show ?thesis
              by auto
          next
            case high: True
            obtain self2 ok requests where
              tp: "take_profit_half_position self ex ?symbol position = (self2, ok, requests)"
              by (cases "take_profit_half_position self ex ?symbol position") auto
            with "2.prems" Some False price nz high
            have rest: "check_positions self2 ex rest (sent @ requests) = (self1, sent1)"
              by (simp add: Let_def)
            from take_profit_half_position_effect [OF tp]
            have eff: "self2 = self \<or>
                self2 = self\<lparr>take_profit_executed := insert ?symbol (take_profit_executed self)\<rparr>"
              and reqs: "\<forall>r \<in> set requests. req_symbol r = ?symbol"
              by simp_all
            from "2.IH"(3) [OF refl refl Some False price nz refl high tp [symmetric] refl rest]
            have ih: "take_profit_executed self2 \<subseteq> take_profit_executed self1"
              "take_profit_executed self1 \<subseteq> take_profit_executed self2 \<union> set (map pos_symbol rest)"
              "profit_threshold self1 = profit_threshold self2"
              "\<forall>r \<in> set sent1. r \<in> set (sent @ requests) \<or> req_symbol r \<notin> take_profit_executed self2"
              by simp_all
            from eff ih reqs False show ?thesis
              by auto
          qed
        qed
      qed
    qed
  qed
qed

text \<open>
  A run that sees other positions, but none for a symbol, removes the symbol from the set.
\<close>

lemma check_and_execute_take_profit_clears_absent:
  assumes "get_positions ex \<noteq> []" and "symbol \<notin> set (map pos_symbol (get_positions ex))"
  shows "symbol \<notin> take_profit_executed (fst (check_and_execute_take_profit self ex))"
proof -
  let ?ps = "get_positions ex"
  let ?self1 = "self\<lparr>take_profit_executed :=
      Set.filter (\<lambda>symbol. symbol \<in> set (map pos_symbol ?ps)) (take_profit_executed self)\<rparr>"
  obtain self2 sent where run: "check_positions ?self1 ex ?ps [] = (self2, sent)"
    by (cases "check_positions ?self1 ex ?ps []") auto
  from check_positions_effect [OF run]
  have "take_profit_executed self2 \<subseteq> take_profit_executed ?self1 \<union> set (map pos_symbol ?ps)"
    by simp
  with assms(2) have "symbol \<notin> take_profit_executed self2"
    by auto
  with assms(1) run show ?thesis
    by (simp add: check_and_execute_take_profit_def Let_def)
qed

text \<open>
  While a symbol is in the set and its position is seen (or the list of positions is
  empty), a run places no order for the symbol and keeps the symbol in the set.
\<close>

lemma check_and_execute_take_profit_suppressed:
  assumes "symbol \<in> take_profit_executed self"
    and "get_positions ex = [] \<or> symbol \<in> set (map pos_symbol (get_positions ex))"
  shows "symbol \<in> take_profit_executed (fst (check_and_execute_take_profit self ex)) \<and>
         (\<forall>r \<in> set (snd (check_and_execute_take_profit self ex)). req_symbol r \<noteq> symbol)"
proof (cases "get_positions ex = []")
  case True
  with assms(1) show ?thesis
    by (simp add: check_and_execute_take_profit_def)
next
  case False
  let ?ps = "get_positions ex"
  let ?self1 = "self\<lparr>take_profit_executed :=
      Set.filter (\<lambda>symbol. symbol \<in> set (map pos_symbol ?ps)) (take_profit_executed self)\<rparr>"
  obtain self2 sent where run: "check_positions ?self1 ex ?ps [] = (self2, sent)"
    by (cases "check_positions ?self1 ex ?ps []") auto
  from False assms have kept: "symbol \<in> take_profit_executed ?self1"
    by simp
  from check_positions_effect [OF run]
  have "take_profit_executed ?self1 \<subseteq> take_profit_executed self2"
    and "\<forall>r \<in> set sent. r \<in> set [] \<or> req_symbol r \<notin> take_profit_executed ?self1"
    by blast+
  with kept have "symbol \<in> take_profit_executed self2" and "\<forall>r \<in> set sent. req_symbol r \<noteq> symbol"
    by auto
  with False run show ?thesis
    by (simp add: check_and_execute_take_profit_def Let_def)
qed

text \<open>With no position seen, the run returns before the set is cleaned.\<close>

lemma check_and_execute_take_profit_no_positions:
  "get_positions ex = [] \<Longrightarrow> check_and_execute_take_profit self ex = (self, [])"
  by (simp add: check_and_execute_take_profit_def)

text \<open>
  The quantity of the partial close as a function of the amount and the step size. It is
  within half a step of half the amount, up to the rounding of the three operations: each
  of them changes its result by at most the fraction \<open>2\<^sup>-\<^sup>5\<^sup>3\<close> of it.
\<close>

lemma half_close_quantity_near:
  assumes step: "step \<noteq> 0"
  shows "\<bar>float_mul (of_int (py_round (float_truediv (float_truediv \<bar>amt\<bar> 2) step))) step
           - \<bar>amt\<bar> / 2\<bar>
         \<le> \<bar>step\<bar> / 2 + (\<bar>amt\<bar> + \<bar>step\<bar>) / 2 ^ 52"
proof -
  define h0 where "h0 = \<bar>amt\<bar> / 2"
  define h where "h = round_double h0"
  define x where "x = round_double (h / step)"
  define k where "k = py_round x"
  define Q where "Q = round_double (of_int k * step)"
  define X where "X = x * step"
  define K where "K = of_int k * step"
  have s: "0 < \<bar>step\<bar>" using step by simp
  have h0: "0 \<le> h0" by (simp add: h0_def)
  have 1: "\<bar>h - h0\<bar> \<le> h0 / 2 ^ 53"
    using round_double_error [of h0] h0 by (simp add: h_def)
  have "\<bar>x - h / step\<bar> * \<bar>step\<bar> \<le> \<bar>h / step\<bar> / 2 ^ 53 * \<bar>step\<bar>"
    unfolding x_def by (rule mult_right_mono [OF round_double_error]) simp
  moreover have "\<bar>x - h / step\<bar> * \<bar>step\<bar> = \<bar>X - h\<bar>"
    using step by (simp add: X_def abs_mult [symmetric] left_diff_distrib)
  moreover have "\<bar>h / step\<bar> / 2 ^ 53 * \<bar>step\<bar> = \<bar>h\<bar> / 2 ^ 53"
    using step by simp
  ultimately have 2: "\<bar>X - h\<bar> \<le> \<bar>h\<bar> / 2 ^ 53"
    by simp
  have "\<bar>of_int k - x\<bar> * \<bar>step\<bar> \<le> 1 / 2 * \<bar>step\<bar>"
    unfolding k_def by (rule mult_right_mono [OF py_round_near]) simp
  then have 3: "\<bar>K - X\<bar> \<le> \<bar>step\<bar> / 2"
    by (simp add: K_def X_def abs_mult [symmetric] left_diff_distrib)
  have 4: "\<bar>Q - K\<bar> \<le> \<bar>K\<bar> / 2 ^ 53"
    unfolding Q_def K_def by (rule round_double_error)
  have small: "y / 2 ^ 53 \<le> y / 8" if "0 \<le> y" for y :: rat
    using that by simp
  from 1 small [OF h0] have a: "\<bar>h\<bar> \<le> 9 / 8 * h0"
    by linarith
  have "\<bar>h\<bar> / 2 ^ 53 \<le> \<bar>h\<bar> / 8"
    by (rule small) simp
  with 2 a have b: "\<bar>X\<bar> \<le> 81 / 64 * h0"
    by linarith
  from 3 b have c: "\<bar>K\<bar> \<le> 81 / 64 * h0 + \<bar>step\<bar> / 2"
    by linarith
  from c have "\<bar>K\<bar> / 2 ^ 53 \<le> (81 / 64 * h0 + \<bar>step\<bar> / 2) / 2 ^ 53"
    by (rule divide_right_mono) simp
  with 4 have d: "\<bar>Q - K\<bar> \<le> (81 / 64 * h0 + \<bar>step\<bar> / 2) / 2 ^ 53"
    by (rule order_trans)
  from a have "\<bar>h\<bar> / 2 ^ 53 \<le> (9 / 8 * h0) / 2 ^ 53"
    by (rule divide_right_mono) simp
  with 2 have e: "\<bar>X - h\<bar> \<le> (9 / 8 * h0) / 2 ^ 53"
    by (rule order_trans)
  have "\<bar>Q - h0\<bar> \<le> \<bar>Q - K\<bar> + \<bar>K - X\<bar> + \<bar>X - h\<bar> + \<bar>h - h0\<bar>"
    by linarith
  also have "\<dots> \<le> (81 / 64 * h0 + \<bar>step\<bar> / 2) / 2 ^ 53 + \<bar>step\<bar> / 2
                      + (9 / 8 * h0) / 2 ^ 53 + h0 / 2 ^ 53"
    using d 3 e 1 by (intro add_mono)
  also have "\<dots> \<le> \<bar>step\<bar> / 2 + (2 * h0 + \<bar>step\<bar>) / 2 ^ 52"
    using h0 s by (simp add: field_simps)
  finally have "\<bar>Q - h0\<bar> \<le> \<bar>step\<bar> / 2 + (2 * h0 + \<bar>step\<bar>) / 2 ^ 52" .
  then show ?thesis
    by (simp add: Q_def k_def x_def h_def h0_def float_mul_def float_truediv_def)
qed

text \<open>
  Doubles of the examples: numbers with few bits are doubles; the decimals 0.6, 0.1 and 0.3
  are not, and \<^verbatim>\<open>float\<close> reads them as the nearest doubles.
\<close>

lemma round_double_examples:
  "round_double (7 / 4) = 7 / 4" "round_double 2 = 2" "round_double (1 / 2) = 1 / 2"
  "round_double 0 = 0"
  using round_double_representable [of 7 "- 2"] round_double_representable [of 2 0]
    round_double_representable [of 1 "- 1"]
  by (simp_all add: power_int_minus round_double_def)

lemma double_6_10: "round_double (6 / 10) = 5404319552844595 / 2 ^ 53"
proof -
  have "py_round (6 / 10 * 2 ^ 53) = 5404319552844595"
    by (rule py_round_unique) simp
  with round_double_eq [of "- 1" "6 / 10"] show ?thesis
    by (simp add: power_int_minus)
qed

lemma double_1_10: "round_double (1 / 10) = 3602879701896397 / 2 ^ 55"
proof -
  have "py_round (1 / 10 * 2 ^ 56) = 7205759403792794"
    by (rule py_round_unique) simp
  with round_double_eq [of "- 4" "1 / 10"] show ?thesis
    by (simp add: power_int_minus)
qed

lemma double_3_10: "round_double (3 / 10) = 5404319552844595 / 2 ^ 54"
proof -
  have "py_round (3 / 10 * 2 ^ 54) = 5404319552844595"
    by (rule py_round_unique) simp
  with round_double_eq [of "- 2" "3 / 10"] show ?thesis
    by (simp add: power_int_minus)
qed

text \<open>
  A position of \<^verbatim>\<open>'0.6'\<close> with the step size \<^verbatim>\<open>'0.1'\<close>: the quotient of the half by the
  step is rounded to the double below 3, \<^verbatim>\<open>round\<close> gives 3, and the product of 3 and the
  step is rounded to the double above the one that \<^verbatim>\<open>float\<close> makes of \<^verbatim>\<open>'0.3'\<close>, which
  Python prints as \<^verbatim>\<open>0.30000000000000004\<close>.
\<close>

lemma half_close_quantity_of_tenths:
  "float_mul (of_int (py_round (float_truediv (float_truediv \<bar>5404319552844595 / 2 ^ 53\<bar> 2)
      (3602879701896397 / 2 ^ 55)))) (3602879701896397 / 2 ^ 55) = 5404319552844596 / 2 ^ 54"
proof -
  have h: "float_truediv \<bar>5404319552844595 / 2 ^ 53\<bar> 2 = 5404319552844595 / 2 ^ 54"
    using round_double_representable [of 5404319552844595 "- 54"]
    by (simp add: float_truediv_def power_int_minus)
  have "py_round (5404319552844595 / 2 ^ 54 / (3602879701896397 / 2 ^ 55) * 2 ^ 51) = 6755399441055743"
    by (rule py_round_unique) simp
  with round_double_eq [of 1 "5404319552844595 / 2 ^ 54 / (3602879701896397 / 2 ^ 55)"]
  have x: "float_truediv (5404319552844595 / 2 ^ 54) (3602879701896397 / 2 ^ 55)
      = 6755399441055743 / 2 ^ 51"
    by (simp add: float_truediv_def)
  have k: "py_round (6755399441055743 / 2 ^ 51) = 3"
    by (rule py_round_unique) simp
  have "py_round (of_int 5404319552844595 + 1 / 2) = 5404319552844596"
    by (simp only: py_round_tie) simp
  then have "py_round (3 * (3602879701896397 / 2 ^ 55) * 2 ^ 54) = 5404319552844596"
    by simp
  with round_double_eq [of "- 2" "3 * (3602879701896397 / 2 ^ 55)"]
  have q: "float_mul 3 (3602879701896397 / 2 ^ 55) = 5404319552844596 / 2 ^ 54"
    by (simp add: float_mul_def power_int_minus)
  show ?thesis
    by (simp only: h x k q of_int_numeral)
qed

text \<open>
  A position of \<^verbatim>\<open>'0.3'\<close> with the step size \<^verbatim>\<open>'0.1'\<close>: the quotient of the half by the
  step is rounded to the double below 1.5, and the quantity is one step, where the decimal
  numbers 0.15 and 0.1 have the quotient 1.5, a tie.
\<close>

lemma half_close_quantity_of_three_tenths:
  "float_mul (of_int (py_round (float_truediv (float_truediv \<bar>5404319552844595 / 2 ^ 54\<bar> 2)
      (3602879701896397 / 2 ^ 55)))) (3602879701896397 / 2 ^ 55) = 3602879701896397 / 2 ^ 55"
proof -
  have h: "float_truediv \<bar>5404319552844595 / 2 ^ 54\<bar> 2 = 5404319552844595 / 2 ^ 55"
    using round_double_representable [of 5404319552844595 "- 55"]
    by (simp add: float_truediv_def power_int_minus)
  have "py_round (5404319552844595 / 2 ^ 55 / (3602879701896397 / 2 ^ 55) * 2 ^ 52) = 6755399441055743"
    by (rule py_round_unique) simp
  with round_double_eq [of 0 "5404319552844595 / 2 ^ 55 / (3602879701896397 / 2 ^ 55)"]
  have x: "float_truediv (5404319552844595 / 2 ^ 55) (3602879701896397 / 2 ^ 55)
      = 6755399441055743 / 2 ^ 52"
    by (simp add: float_truediv_def)
  have k: "py_round (6755399441055743 / 2 ^ 52) = 1"
    by (rule py_round_unique) simp
  have q: "float_mul 1 (3602879701896397 / 2 ^ 55) = 3602879701896397 / 2 ^ 55"
    using round_double_representable [of 3602879701896397 "- 55"]
    by (simp add: float_mul_def power_int_minus)
  show ?thesis
    by (simp only: h x k q of_int_1)
qed

text \<open>
  A long position of 3.5 with the step size 1, above the threshold: the numbers involved
  are doubles and no operation rounds; the order placed is for 2.
\<close>

lemma half_close_of_long_position:
  "take_profit_half_position fresh_monitor long_exchange ''XUSDT'' long_position =
     (closed_once, True, [close_request ''XUSDT'' SIDE_SELL 2])"
proof -
  have k: "py_round (7 / 4) = 2"
    by (rule py_round_unique) simp
  show ?thesis
    by (simp add: take_profit_half_position_def long_exchange_def flat_exchange_def xusdt_info_def
        get_current_price_def submit_close_def close_request_def fresh_monitor_def closed_once_def
        long_position_def Let_def float_truediv_def float_mul_def round_double_examples k)
qed

section \<open>C1: the computed quantity\<close>

text \<open>
  Claim C1, at an instrument whose quantity precision is coarser than its step size:
  margin 14, leverage 1 and price 1000 give the raw quantity 0.014, which is 14 steps
  of 0.001 and not below the minimum 0.012; formatting it with two decimal places makes
  it 0.01, and that is returned, although it is below the minimum quantity.
\<close>

theorem calculate_quantity_below_minimum:
  "calculate_quantity (quoting_exchange 1000 coarse_precision_info) ''XUSDT'' 14 1 = Some (1 / 100) \<and>
   find (\<lambda>f. filterType f = ''LOT_SIZE'') (filters coarse_precision_info) =
     Some \<lparr>filterType = ''LOT_SIZE'', stepSize = 1 / 1000, minQty = 12 / 1000\<rparr> \<and>
   of_int (py_round (14 * 1 / 1000 / (1 / 1000))) * (1 / 1000) = (14 / 1000 :: rat) \<and>
   py_format_f (14 / 1000) 2 = ''0.01'' \<and>
   (1 / 100 :: rat) < 12 / 1000"
proof -
  have steps: "py_round 14 = 14"
    using py_round_unique [of 14 14] by simp
  have cents: "py_round (7 / 5) = 1"
    using py_round_unique [of "7 / 5" 1] by simp
  have "digit_char 0 = CHR ''0''" "digit_char 1 = CHR ''1''"
    by code_simp+
  then have digits: "digits_of 0 = ''0''" "digits_of (Suc 0) = ''1''"
    by (simp_all add: digits_of_small)
  have written: "py_format_f (14 / 1000) 2 = ''0.01''"
    by (simp add: py_format_f_def Let_def cents digits)
  have "calculate_quantity (quoting_exchange 1000 coarse_precision_info) ''XUSDT'' 14 1 = Some (1 / 100)"
    by (simp add: calculate_quantity_def quoting_exchange_def coarse_precision_info_def
        float_of_format_value format_fixed_def steps cents Let_def)
  with written steps show ?thesis
    by (simp add: coarse_precision_info_def)
qed

section \<open>C2: the entry signal\<close>

text \<open>
  Claim C2. For every candle with both moving averages present, \<^verbatim>\<open>check_open_long_signal\<close>
  returns \<^verbatim>\<open>True\<close> if and only if the four conditions of the specification hold. When the
  open price and the larger moving average are not zero, so that the percentages are
  defined, it returns exactly the truth value of their conjunction; when one of them is
  zero the method raises and does not fire, and the conjunction is false as well (a
  quotient by zero is 0 in HOL, which fails the first or the fourth condition). On the
  example candle (open 100, close 102, low 97, MA20 99, MA60 98) the percentages are 2, 3
  and 100/33 and the signal is \<^verbatim>\<open>True\<close>; with close 112 the price change is 12 and the
  signal is \<^verbatim>\<open>False\<close>.
\<close>

theorem check_open_long_signal_iff_spec:
  "((check_open_long_signal (Some k) = Inr True) = fire_spec k) \<and>
   (k_open k \<noteq> 0 \<and> maxMA k \<noteq> 0 \<longrightarrow> check_open_long_signal (Some k) = Inr (fire_spec k)) \<and>
   (priceChangePct example_candle = 2 \<and> openLowPct example_candle = 3 \<and>
    aboveMAPct example_candle = 100 / 33 \<and>
    check_open_long_signal (Some example_candle) = Inr True) \<and>
   (priceChangePct example_candle_112 = 12 \<and>
    check_open_long_signal (Some example_candle_112) = Inr False)"
proof (intro conjI impI)
  have defined: "check_open_long_signal (Some k) = Inr (fire_spec k)"
    if "k_open k \<noteq> 0 \<and> maxMA k \<noteq> 0"
    using that
    by (auto simp: check_open_long_signal_def fire_spec_def priceChangePct_def openLowPct_def
        maxMA_def aboveMAPct_def Let_def)
  show "(check_open_long_signal (Some k) = Inr True) = fire_spec k"
  proof (cases "k_open k \<noteq> 0 \<and> maxMA k \<noteq> 0")
    case True
    then show ?thesis by (simp add: defined)
  next
    case False
    then have "check_open_long_signal (Some k) = Inl ZeroDivisionError"
      by (auto simp: check_open_long_signal_def maxMA_def Let_def)
    moreover from False have "\<not> fire_spec k"
      by (auto simp: fire_spec_def priceChangePct_def aboveMAPct_def)
    ultimately show ?thesis by simp
  qed
  show "check_open_long_signal (Some k) = Inr (fire_spec k)" if "k_open k \<noteq> 0 \<and> maxMA k \<noteq> 0"
    using that by (rule defined)
qed (simp_all add: check_open_long_signal_def example_candle_def example_candle_112_def
      priceChangePct_def openLowPct_def maxMA_def aboveMAPct_def Let_def)

theorem check_open_long_signal_iff_spec_witness:
  "k_open example_candle \<noteq> 0 \<and> maxMA example_candle \<noteq> 0 \<and>
   check_open_long_signal (Some example_candle) = Inr (fire_spec example_candle) \<and>
   fire_spec example_candle"
proof -
  have h: "k_open example_candle \<noteq> 0 \<and> maxMA example_candle \<noteq> 0"
    by (simp add: example_candle_def maxMA_def)
  have f: "fire_spec example_candle"
    by (simp add: fire_spec_def example_candle_def priceChangePct_def openLowPct_def
        maxMA_def aboveMAPct_def)
  from check_open_long_signal_iff_spec [of example_candle] h f show ?thesis
    by simp
qed

section \<open>C3: attempts of the retry wrapper\<close>

text \<open>
  Claim C3. When the first attempt of \<^verbatim>\<open>safe_request\<close> fails with an error whose code is in
  the no-retry list (\<open>-4059\<close>), that error is re-raised at once and \<^verbatim>\<open>request_func\<close> has
  been called exactly once, with no sleep and no resynchronisation. When every attempt
  fails with an error that is neither of that kind nor the clock-skew error \<open>1021\<close>,
  \<^verbatim>\<open>request_func\<close> is called exactly \<^verbatim>\<open>max_retries\<close> times (three, as \<^verbatim>\<open>__init__\<close> sets
  it) and the error of the last attempt, which is the last one recorded, is raised.
\<close>

theorem safe_request_attempt_counts:
  "(0 < max_retries self \<and> permanent_func 0 = Raises e \<and> is_no_retry e \<longrightarrow>
      safe_request self permanent_func =
        (Inl e, \<lparr>attempts = 1, resyncs = 0, sleeps = 0, last_exception = None\<rparr>)) \<and>
   (0 < max_retries self \<and>
    (\<forall>a \<in> set [0..<max_retries self]. transient_func a = Raises (err a) \<and> transient (err a)) \<longrightarrow>
      safe_request self transient_func =
        (Inl (err (max_retries self - 1)),
         \<lparr>attempts = max_retries self, resyncs = 0, sleeps = max_retries self,
          last_exception = Some (err (max_retries self - 1))\<rparr>))"
proof (intro conjI impI)
  assume h: "0 < max_retries self \<and> permanent_func 0 = Raises e \<and> is_no_retry e"
  then obtain n where n: "max_retries self = Suc n"
    by (cases "max_retries self") auto
  have "[0..<Suc n] = 0 # [1..<Suc n]"
    by (simp add: upt_rec)
  with h n show "safe_request self permanent_func =
      (Inl e, \<lparr>attempts = 1, resyncs = 0, sleeps = 0, last_exception = None\<rparr>)"
    by (simp add: safe_request_def no_effects_def)
next
  assume h: "0 < max_retries self \<and>
    (\<forall>a \<in> set [0..<max_retries self]. transient_func a = Raises (err a) \<and> transient (err a))"
  then have all: "\<forall>a \<in> set [0..<max_retries self]. transient_func a = Raises (err a) \<and> transient (err a)"
    by blast
  from h have ne: "[0..<max_retries self] \<noteq> []" by simp
  from h have la: "last [0..<max_retries self] = max_retries self - 1"
    by (cases "max_retries self") simp_all
  show "safe_request self transient_func =
      (Inl (err (max_retries self - 1)),
       \<lparr>attempts = max_retries self, resyncs = 0, sleeps = max_retries self,
        last_exception = Some (err (max_retries self - 1))\<rparr>)"
    unfolding safe_request_def attempt_loop_all_transient [OF all]
    using ne la by (simp add: Let_def no_effects_def)
qed

theorem safe_request_attempt_counts_witness:
  "safe_request init_config (\<lambda>a. Raises (Exn (Some (- 4059)) ''No need to change position side.'') :: unit outcome) =
     (Inl (Exn (Some (- 4059)) ''No need to change position side.''),
      \<lparr>attempts = 1, resyncs = 0, sleeps = 0, last_exception = None\<rparr>) \<and>
   safe_request init_config (\<lambda>a. Raises (Exn None (replicate a CHR ''x'')) :: unit outcome) =
     (Inl (Exn None ''xx''),
      \<lparr>attempts = 3, resyncs = 0, sleeps = 3, last_exception = Some (Exn None ''xx'')\<rparr>)"
proof -
  let ?p = "\<lambda>a::nat. Raises (Exn (Some (- 4059)) ''No need to change position side.'') :: unit outcome"
  let ?t = "\<lambda>a::nat. Raises (Exn None (replicate a CHR ''x'')) :: unit outcome"
  let ?err = "\<lambda>a::nat. Exn None (replicate a CHR ''x'')"
  have m: "max_retries init_config = 3"
    by (simp add: init_config_def)
  have p: "0 < max_retries init_config \<and> ?p 0 = Raises (Exn (Some (- 4059)) ''No need to change position side.'') \<and>
      is_no_retry (Exn (Some (- 4059)) ''No need to change position side.'')"
    by (simp add: m is_no_retry_def no_retry_codes_def)
  have t: "0 < max_retries init_config \<and>
      (\<forall>a \<in> set [0..<max_retries init_config]. ?t a = Raises (?err a) \<and> transient (?err a))"
    by (simp add: m transient_def is_no_retry_def is_time_sync_error_def)
  have r: "replicate 2 CHR ''x'' = ''xx''"
    by (simp add: numeral_2_eq_2)
  from safe_request_attempt_counts [of init_config ?p "Exn (Some (- 4059)) ''No need to change position side.''" ?t ?err]
    p t show ?thesis
    by (simp add: m r)
qed

section \<open>C4: which measurement a synchronisation keeps\<close>

text \<open>
  Claim C4, as the code has it. In every run of \<^verbatim>\<open>sync_time\<close> that ends synchronised, the
  endpoints are asked in the order of the list, up to and with the first one whose
  round-trip delay is below 500 ms; the measurement kept is that of this endpoint, and when
  no endpoint is that fast, that of the last endpoint of the list that answered (the last,
  whatever its delay). \<^verbatim>\<open>last_server_time\<close> becomes its remote time and
  \<^verbatim>\<open>last_local_time\<close> the clock after the loop. When the request of the kept measurement
  was sent in the millisecond in which \<^verbatim>\<open>sync_time\<close> was entered, the stored offset is the
  remote time minus the send time plus half the delay (the integer half, \<^verbatim>\<open>// 2\<close>).
\<close>

theorem sync_time_accepts_first_fast_else_last:
  assumes "snd (sync_time self force w) = Synced"
  shows "endpoints_queried self force w = until_fast (fetch w) endpoints \<and>
         (\<exists>e s. accepted_endpoint (fetch w) endpoints = Some e \<and>
                sample_of (fetch w e) = Some s \<and>
                last_server_time (fst (sync_time self force w)) = remote_time s \<and>
                last_local_time (fst (sync_time self force w)) = py_ms (response_clock w) \<and>
                is_synced (fst (sync_time self force w)) \<and>
                (send_time s = py_ms (entry_clock w) \<longrightarrow>
                   time_offset (fst (sync_time self force w)) =
                     remote_time s - (send_time s + delay s div 2)))"
proof -
  let ?start = "\<lparr>binance_time = 0, network_delay = 1000, queried = []\<rparr>"
  let ?p = "query_endpoints (fetch w) endpoints ?start"
  from assms have run: "force \<or> \<not> entry_clock w - last_sync_time self < min_sync_interval self"
    and bt: "binance_time ?p \<noteq> 0"
    by (simp_all add: sync_time_Synced_iff)
  have char: "?p = (case accepted_endpoint (fetch w) endpoints of
        None \<Rightarrow> ?start\<lparr>queried := queried ?start @ until_fast (fetch w) endpoints\<rparr>
      | Some e \<Rightarrow>
          (case sample_of (fetch w e) of
             None \<Rightarrow> ?start\<lparr>queried := queried ?start @ until_fast (fetch w) endpoints\<rparr>
           | Some s \<Rightarrow> \<lparr>binance_time = remote_time s, network_delay = delay s,
                        queried = queried ?start @ until_fast (fetch w) endpoints\<rparr>))"
    by (rule query_endpoints_accepted)
  from bt char obtain e s where e: "accepted_endpoint (fetch w) endpoints = Some e"
    and s: "sample_of (fetch w e) = Some s"
    by (auto split: option.splits)
  from char e s have p: "?p = \<lparr>binance_time = remote_time s, network_delay = delay s,
      queried = until_fast (fetch w) endpoints\<rparr>"
    by simp
  have q: "endpoints_queried self force w = until_fast (fetch w) endpoints"
    using run by (auto simp: endpoints_queried_def p)
  have st: "fst (sync_time self force w) =
      self\<lparr>time_offset := remote_time s - (py_ms (entry_clock w) + delay s div 2),
           last_server_time := remote_time s,
           last_local_time := py_ms (response_clock w),
           last_sync_time := entry_clock w,
           is_synced := True\<rparr>"
    using run bt by (auto simp: sync_time_def Let_def p)
  show ?thesis
    using e s q by (simp add: st)
qed

theorem sync_time_accepts_first_fast_else_last_witness:
  "snd (sync_time (init_time_sync 1800 10000) False quick_world) = Synced \<and>
   endpoints_queried (init_time_sync 1800 10000) False quick_world =
     [''https://api.binance.com/api/v3/time''] \<and>
   until_fast (fetch quick_world) endpoints = [''https://api.binance.com/api/v3/time''] \<and>
   accepted_endpoint (fetch quick_world) endpoints = Some ''https://api.binance.com/api/v3/time'' \<and>
   sample_of (fetch quick_world ''https://api.binance.com/api/v3/time'') =
     Some \<lparr>send_time = 1700000000000, delay = 40, remote_time = 1700000005020\<rparr> \<and>
   py_ms (entry_clock quick_world) = 1700000000000 \<and>
   time_offset (fst (sync_time (init_time_sync 1800 10000) False quick_world)) = 5000 \<and>
   last_server_time (fst (sync_time (init_time_sync 1800 10000) False quick_world)) = 1700000005020"
proof -
  let ?s = "init_time_sync 1800 10000"
  let ?e = "''https://api.binance.com/api/v3/time''"
  have h: "snd (sync_time ?s False quick_world) = Synced"
    by code_simp
  have u: "until_fast (fetch quick_world) endpoints = [?e]"
    by code_simp
  have a: "accepted_endpoint (fetch quick_world) endpoints = Some ?e"
    by code_simp
  have s: "sample_of (fetch quick_world ?e) =
      Some \<lparr>send_time = 1700000000000, delay = 40, remote_time = 1700000005020\<rparr>"
    by code_simp
  have c: "py_ms (entry_clock quick_world) = 1700000000000"
    by code_simp
  from sync_time_accepts_first_fast_else_last [OF h] u a s c show ?thesis
    using h by auto
qed

text \<open>
  The claim as the specification words it fails in a world where no endpoint is fast and
  the endpoint of lowest delay is not the last to answer: the first endpoint answers after
  600 ms, the second after 900 ms. The specification's rule keeps the first measurement
  (remote time 1700000005300, offset 5000 ms); \<^verbatim>\<open>sync_time\<close> stores the second one's remote
  time, 1700000006150, and the offset 5700.
\<close>

theorem sync_time_keeps_last_not_lowest_delay:
  "snd (sync_time (init_time_sync 1800 10000) False slow_world) = Synced \<and>
   endpoints_queried (init_time_sync 1800 10000) False slow_world = endpoints \<and>
   sample_spec (fetch slow_world) endpoints =
     Some \<lparr>send_time = 1700000000000, delay = 600, remote_time = 1700000005300\<rparr> \<and>
   offset_spec \<lparr>send_time = 1700000000000, delay = 600, remote_time = 1700000005300\<rparr> = 5000 \<and>
   last_server_time (fst (sync_time (init_time_sync 1800 10000) False slow_world)) = 1700000006150 \<and>
   time_offset (fst (sync_time (init_time_sync 1800 10000) False slow_world)) = 5700 \<and>
   of_int (time_offset (fst (sync_time (init_time_sync 1800 10000) False slow_world))) \<noteq>
     offset_spec \<lparr>send_time = 1700000000000, delay = 600, remote_time = 1700000005300\<rparr>"
  by code_simp

section \<open>C5: one stop-loss record per symbol\<close>

text \<open>
  Claim C5, as the code has it. The tracking map holds at most one stop-loss order id per
  symbol in every state. After a call of \<^verbatim>\<open>set_stop_loss\<close> or \<^verbatim>\<open>update_stop_loss\<close> that
  returns an order, the symbol has an open position and exactly one record, the id of the
  order returned. (A call that returns \<^verbatim>\<open>None\<close> promises no record: see the theorem after
  the witness.)
\<close>

theorem stop_loss_one_record_after_success:
  "(set_stop_loss self ex symbol entry_price kline = (self1, Inr (Some placed)) \<longrightarrow>
      get_position ex symbol \<noteq> None \<and> stop_loss_ids self1 symbol = {orderId placed}) \<and>
   (update_stop_loss self ex symbol entry_price = (self2, Some replaced) \<longrightarrow>
      get_position ex symbol \<noteq> None \<and> stop_loss_ids self2 symbol = {orderId replaced}) \<and>
   finite (stop_loss_ids self symbol) \<and> card (stop_loss_ids self symbol) \<le> 1"
proof (intro conjI impI)
  assume "set_stop_loss self ex symbol entry_price kline = (self1, Inr (Some placed))"
  then have "get_position ex symbol \<noteq> None \<and>
      self1 = record_stop_loss (fst (cancel_associated_orders self ex symbol)) symbol (orderId placed)"
    by (auto simp: set_stop_loss_def Let_def split: option.splits if_splits sum.splits)
  then show "get_position ex symbol \<noteq> None" and "stop_loss_ids self1 symbol = {orderId placed}"
    by (simp_all add: stop_loss_ids_record)
next
  assume "update_stop_loss self ex symbol entry_price = (self2, Some replaced)"
  then have "get_position ex symbol \<noteq> None \<and>
      self2 = record_stop_loss (fst (cancel_associated_orders self ex symbol)) symbol (orderId replaced)"
    by (auto simp: update_stop_loss_def Let_def split: option.splits if_splits sum.splits)
  then show "get_position ex symbol \<noteq> None" and "stop_loss_ids self2 symbol = {orderId replaced}"
    by (simp_all add: stop_loss_ids_record)
next
  from stop_loss_ids_at_most_one [of self symbol]
  show "finite (stop_loss_ids self symbol)" and "card (stop_loss_ids self symbol) \<le> 1"
    by auto
qed

theorem stop_loss_one_record_after_success_witness:
  "set_stop_loss tracking_7 accepting_exchange ''XUSDT'' 100 (Some example_candle) =
     (fst (set_stop_loss tracking_7 accepting_exchange ''XUSDT'' 100 (Some example_candle)),
      Inr (Some \<lparr>orderId = 8, order_type = ''STOP_MARKET'', reduceOnly = False, order_status = ''NEW''\<rparr>)) \<and>
   stop_loss_ids (fst (set_stop_loss tracking_7 accepting_exchange ''XUSDT'' 100 (Some example_candle)))
     ''XUSDT'' = {8} \<and>
   update_stop_loss tracking_7 accepting_exchange ''XUSDT'' 100 =
     (fst (update_stop_loss tracking_7 accepting_exchange ''XUSDT'' 100),
      Some \<lparr>orderId = 8, order_type = ''STOP_MARKET'', reduceOnly = False, order_status = ''NEW''\<rparr>) \<and>
   stop_loss_ids (fst (update_stop_loss tracking_7 accepting_exchange ''XUSDT'' 100)) ''XUSDT'' = {8} \<and>
   stop_loss_ids tracking_7 ''XUSDT'' = {7}"
proof -
  let ?o = "\<lparr>orderId = 8, order_type = ''STOP_MARKET'', reduceOnly = False, order_status = ''NEW''\<rparr>"
  let ?set = "set_stop_loss tracking_7 accepting_exchange ''XUSDT'' 100 (Some example_candle)"
  let ?upd = "update_stop_loss tracking_7 accepting_exchange ''XUSDT'' 100"
  have "snd ?set = Inr (Some ?o)"
    by code_simp
  then have a: "?set = (fst ?set, Inr (Some ?o))"
    by (simp add: prod_eq_iff)
  have "snd ?upd = Some ?o"
    by code_simp
  then have b: "?upd = (fst ?upd, Some ?o)"
    by (simp add: prod_eq_iff)
  have c: "stop_loss_ids tracking_7 ''XUSDT'' = {7}"
    by (auto simp: stop_loss_ids_def tracking_7_def)
  from stop_loss_one_record_after_success
    [of tracking_7 accepting_exchange "''XUSDT''" 100 "Some example_candle" "fst ?set" ?o "fst ?upd" ?o]
    a b c
  show ?thesis
    by simp
qed

text \<open>
  The claim as stated fails when the exchange refuses the new stop order: the position is
  open, the record of the old order (id 7) has been removed by
  \<^verbatim>\<open>cancel_associated_orders\<close>, the handler of the failed request returns \<^verbatim>\<open>None\<close>, and
  the call is complete with no record for the symbol. This holds for both methods.
\<close>

theorem set_stop_loss_refused_leaves_no_record:
  "get_position refusing_exchange ''XUSDT'' =
     Some \<lparr>pos_symbol = ''XUSDT'', positionAmt = 3, entryPrice = Some 100, markPrice = Some 100\<rparr> \<and>
   stop_loss_ids tracking_7 ''XUSDT'' = {7} \<and>
   snd (set_stop_loss tracking_7 refusing_exchange ''XUSDT'' 100 (Some example_candle)) = Inr None \<and>
   stop_loss_ids (fst (set_stop_loss tracking_7 refusing_exchange ''XUSDT'' 100 (Some example_candle)))
     ''XUSDT'' = {} \<and>
   snd (update_stop_loss tracking_7 refusing_exchange ''XUSDT'' 100) = None \<and>
   stop_loss_ids (fst (update_stop_loss tracking_7 refusing_exchange ''XUSDT'' 100)) ''XUSDT'' = {}"
proof -
  have p: "get_position refusing_exchange ''XUSDT'' =
     Some \<lparr>pos_symbol = ''XUSDT'', positionAmt = 3, entryPrice = Some 100, markPrice = Some 100\<rparr>"
    by code_simp
  have t: "stop_loss_ids tracking_7 ''XUSDT'' = {7}"
    by (auto simp: stop_loss_ids_def tracking_7_def)
  have r: "snd (set_stop_loss tracking_7 refusing_exchange ''XUSDT'' 100 (Some example_candle)) = Inr None"
    by code_simp
  have "order_relations (fst (set_stop_loss tracking_7 refusing_exchange ''XUSDT'' 100 (Some example_candle)))
      ''XUSDT'' = None"
    by code_simp
  then have z: "stop_loss_ids (fst (set_stop_loss tracking_7 refusing_exchange ''XUSDT'' 100 (Some example_candle)))
      ''XUSDT'' = {}"
    by (simp add: stop_loss_ids_def)
  have r2: "snd (update_stop_loss tracking_7 refusing_exchange ''XUSDT'' 100) = None"
    by code_simp
  have "order_relations (fst (update_stop_loss tracking_7 refusing_exchange ''XUSDT'' 100)) ''XUSDT'' = None"
    by code_simp
  then have z2: "stop_loss_ids (fst (update_stop_loss tracking_7 refusing_exchange ''XUSDT'' 100)) ''XUSDT'' = {}"
    by (simp add: stop_loss_ids_def)
  from p t r z r2 z2 show ?thesis
    by simp
qed

section \<open>C6: the set of symbols already closed by half\<close>

text \<open>
  Claim C6, at the input where the code departs from it. A monitor has closed half of a
  position in \<open>XUSDT\<close>, so the symbol is in the set. The position is then closed in
  full and the account holds no position: the run returns at \<^verbatim>\<open>if not positions\<close>, before
  the loop that cleans the set, and the symbol stays in the set. A new long position of 3.5
  is opened at 100 and the price is 200, above the threshold of 1.3 times: the run skips
  the symbol and places no order, whereas a monitor with an empty set places the closing
  order for 2.
\<close>

theorem check_and_execute_take_profit_keeps_memo:
  "get_positions flat_exchange = [] \<and>
   check_and_execute_take_profit closed_once flat_exchange = (closed_once, []) \<and>
   get_positions long_exchange = [long_position] \<and>
   check_and_execute_take_profit closed_once long_exchange = (closed_once, []) \<and>
   check_and_execute_take_profit fresh_monitor long_exchange =
     (closed_once, [close_request ''XUSDT'' SIDE_SELL 2])"
proof (intro conjI)
  show "get_positions flat_exchange = []"
    by code_simp
  show "check_and_execute_take_profit closed_once flat_exchange = (closed_once, [])"
    by code_simp
  show p: "get_positions long_exchange = [long_position]"
    by code_simp
  show "check_and_execute_take_profit closed_once long_exchange = (closed_once, [])"
    by code_simp
  have price: "get_current_price long_exchange ''XUSDT'' = Some 200"
    by code_simp
  have f: "fresh_monitor\<lparr>take_profit_executed :=
      Set.filter (\<lambda>symbol. symbol \<in> set (map pos_symbol [long_position]))
        (take_profit_executed fresh_monitor)\<rparr> = fresh_monitor"
    by (simp add: fresh_monitor_def)
  have fields: "pos_symbol long_position = ''XUSDT''" "positionAmt long_position = 7 / 2"
    "entryPrice long_position = Some 100" "take_profit_executed fresh_monitor = {}"
    "profit_threshold fresh_monitor = 13 / 10"
    by (simp_all add: long_position_def fresh_monitor_def)
  have cp: "check_positions fresh_monitor long_exchange [long_position] [] =
      (closed_once, [close_request ''XUSDT'' SIDE_SELL 2])"
    by (simp add: Let_def price half_close_of_long_position fields)
  show "check_and_execute_take_profit fresh_monitor long_exchange =
      (closed_once, [close_request ''XUSDT'' SIDE_SELL 2])"
    by (simp only: check_and_execute_take_profit_def p Let_def f cp list.distinct if_False)
qed

section \<open>C7: the size of the partial close\<close>

text \<open>
  Claim C7, as the code has it. For an instrument with a \<^verbatim>\<open>LOT_SIZE\<close> filter (and a
  non-zero step size), \<^verbatim>\<open>take_profit_half_position\<close> brings half of the absolute position
  amount to the nearest whole number of steps, not to the number of steps below it. The
  quantity, computed in floating point as
  \<^verbatim>\<open>round(abs(position_amt) / 2 / step_size) * step_size\<close>, is within half a step of the
  half, up to the rounding of the operations, which is at most the fraction \<open>2\<^sup>-\<^sup>5\<^sup>2\<close> of
  the amount plus the step; it can be more than the half. When the computed quantity is
  below the minimum quantity the method returns \<^verbatim>\<open>False\<close> and no order is placed.
  Otherwise it submits one market order with \<^verbatim>\<open>reduceOnly=True\<close> for that quantity, selling
  for a long position and buying for a short one; when the request fails no order is
  placed.
\<close>

theorem take_profit_half_position_nearest_step:
  assumes entry: "entryPrice position = Some entry_price"
    and price: "get_current_price ex symbol = Some current_price"
    and info: "exchange_info ex = Inr symbols" "find (\<lambda>s. si_symbol s = symbol) symbols = Some info"
    and lot: "find (\<lambda>f. filterType f = ''LOT_SIZE'') (filters info) = Some lot"
    and step: "stepSize lot \<noteq> 0"
    and q: "q = float_mul
                  (of_int (py_round (float_truediv (float_truediv \<bar>positionAmt position\<bar> 2)
                                       (stepSize lot))))
                  (stepSize lot)"
    and request: "request = close_request symbol
                    (if positionAmt position > 0 then SIDE_SELL else SIDE_BUY) q"
  shows "\<bar>q - \<bar>positionAmt position\<bar> / 2\<bar>
           \<le> \<bar>stepSize lot\<bar> / 2 + (\<bar>positionAmt position\<bar> + \<bar>stepSize lot\<bar>) / 2 ^ 52 \<and>
         (q < minQty lot \<longrightarrow>
            take_profit_half_position self ex symbol position = (self, False, [])) \<and>
         (minQty lot \<le> q \<longrightarrow>
            (case create_order ex request of
               Inl e \<Rightarrow> take_profit_half_position self ex symbol position = (self, False, [])
             | Inr placed \<Rightarrow>
                 snd (snd (take_profit_half_position self ex symbol position)) = [request] \<and>
                 req_quantity request = Some q \<and> req_reduceOnly request \<and>
                 req_type request = FUTURE_ORDER_TYPE_MARKET))"
proof (intro conjI impI)
  show "\<bar>q - \<bar>positionAmt position\<bar> / 2\<bar>
          \<le> \<bar>stepSize lot\<bar> / 2 + (\<bar>positionAmt position\<bar> + \<bar>stepSize lot\<bar>) / 2 ^ 52"
    unfolding q using step by (rule half_close_quantity_near)
  {
    assume "q < minQty lot"
    then show "take_profit_half_position self ex symbol position = (self, False, [])"
      using step by (simp add: take_profit_half_position_def entry price info lot Let_def q)
  }
  assume "minQty lot \<le> q"
  then have t: "take_profit_half_position self ex symbol position =
      submit_close self ex symbol (positionAmt position) entry_price q"
    using step by (simp add: take_profit_half_position_def entry price info lot Let_def q)
  show "case create_order ex request of
          Inl e \<Rightarrow> take_profit_half_position self ex symbol position = (self, False, [])
        | Inr placed \<Rightarrow>
            snd (snd (take_profit_half_position self ex symbol position)) = [request] \<and>
            req_quantity request = Some q \<and> req_reduceOnly request \<and>
            req_type request = FUTURE_ORDER_TYPE_MARKET"
    by (auto simp: t submit_close_def Let_def request close_request_def split: sum.splits)
qed

text \<open>
  Three instances: a long position of 3.5 with step size 1, closed by 2; a long position
  of 1 with step size 1 and minimum quantity 1, whose half comes to 0 steps and is
  rejected; and a long position of \<^verbatim>\<open>'0.6'\<close> with step size \<^verbatim>\<open>'0.1'\<close>, closed by the
  double that Python prints as \<^verbatim>\<open>0.30000000000000004\<close>.
\<close>

theorem take_profit_half_position_nearest_step_witness:
  "entryPrice long_position = Some 100 \<and>
   get_current_price long_exchange ''XUSDT'' = Some 200 \<and>
   exchange_info long_exchange = Inr [xusdt_info] \<and>
   find (\<lambda>s. si_symbol s = ''XUSDT'') [xusdt_info] = Some xusdt_info \<and>
   find (\<lambda>f. filterType f = ''LOT_SIZE'') (filters xusdt_info) =
     Some \<lparr>filterType = ''LOT_SIZE'', stepSize = 1, minQty = 1\<rparr> \<and>
   (2 :: rat) =
     float_mul (of_int (py_round (float_truediv (float_truediv \<bar>positionAmt long_position\<bar> 2) 1))) 1 \<and>
   snd (snd (take_profit_half_position fresh_monitor long_exchange ''XUSDT'' long_position)) =
     [close_request ''XUSDT'' SIDE_SELL 2] \<and>
   (0 :: rat) =
     float_mul (of_int (py_round (float_truediv (float_truediv \<bar>positionAmt small_position\<bar> 2) 1))) 1 \<and>
   take_profit_half_position fresh_monitor long_exchange ''XUSDT'' small_position =
     (fresh_monitor, False, []) \<and>
   entryPrice tenths_position = Some 100 \<and>
   get_current_price tenths_exchange ''XUSDT'' = Some 200 \<and>
   exchange_info tenths_exchange = Inr [tenths_info] \<and>
   find (\<lambda>s. si_symbol s = ''XUSDT'') [tenths_info] = Some tenths_info \<and>
   find (\<lambda>f. filterType f = ''LOT_SIZE'') (filters tenths_info) =
     Some \<lparr>filterType = ''LOT_SIZE'', stepSize = round_double (1 / 10),
           minQty = round_double (1 / 10)\<rparr> \<and>
   (5404319552844596 / 2 ^ 54 :: rat) =
     float_mul (of_int (py_round (float_truediv (float_truediv \<bar>positionAmt tenths_position\<bar> 2)
                                    (round_double (1 / 10)))))
       (round_double (1 / 10)) \<and>
   snd (snd (take_profit_half_position fresh_monitor tenths_exchange ''XUSDT'' tenths_position)) =
     [close_request ''XUSDT'' SIDE_SELL (5404319552844596 / 2 ^ 54)] \<and>
   round_double (3 / 10) = 5404319552844595 / 2 ^ 54"
proof -
  let ?lot = "\<lparr>filterType = ''LOT_SIZE'', stepSize = 1, minQty = 1\<rparr>"
  let ?tenths = "\<lparr>filterType = ''LOT_SIZE'', stepSize = round_double (1 / 10),
                  minQty = round_double (1 / 10)\<rparr>"
  have entry: "entryPrice long_position = Some 100" "entryPrice small_position = Some 100"
    "entryPrice tenths_position = Some 100"
    by (simp_all add: long_position_def small_position_def tenths_position_def)
  have price: "get_current_price long_exchange ''XUSDT'' = Some 200"
    "get_current_price tenths_exchange ''XUSDT'' = Some 200"
    by (simp_all add: get_current_price_def long_exchange_def tenths_exchange_def flat_exchange_def)
  have info: "exchange_info long_exchange = Inr [xusdt_info]"
    "exchange_info tenths_exchange = Inr [tenths_info]"
    by (simp_all add: long_exchange_def tenths_exchange_def flat_exchange_def)
  have found: "find (\<lambda>s. si_symbol s = ''XUSDT'') [xusdt_info] = Some xusdt_info"
    "find (\<lambda>s. si_symbol s = ''XUSDT'') [tenths_info] = Some tenths_info"
    by (simp_all add: xusdt_info_def tenths_info_def)
  have lot: "find (\<lambda>f. filterType f = ''LOT_SIZE'') (filters xusdt_info) = Some ?lot"
    "find (\<lambda>f. filterType f = ''LOT_SIZE'') (filters tenths_info) = Some ?tenths"
    by (simp_all add: xusdt_info_def tenths_info_def)
  have step: "stepSize ?lot \<noteq> 0" "stepSize ?tenths \<noteq> 0"
    by (simp_all add: double_1_10)
  have "py_round (7 / 4) = 2"
    by (rule py_round_unique) simp
  then have q: "(2 :: rat) =
      float_mul (of_int (py_round (float_truediv (float_truediv \<bar>positionAmt long_position\<bar> 2)
        (stepSize ?lot)))) (stepSize ?lot)"
    by (simp add: long_position_def float_truediv_def float_mul_def round_double_examples)
  have "py_round (0 + 1 / 2) = 0"
    using py_round_tie [of 0] by simp
  then have q0: "(0 :: rat) =
      float_mul (of_int (py_round (float_truediv (float_truediv \<bar>positionAmt small_position\<bar> 2)
        (stepSize ?lot)))) (stepSize ?lot)"
    by (simp add: small_position_def float_truediv_def float_mul_def round_double_examples)
  have amt_t: "positionAmt tenths_position = 5404319552844595 / 2 ^ 53"
    unfolding tenths_position_def by (simp only: position.select_convs double_6_10)
  have step_t: "stepSize ?tenths = 3602879701896397 / 2 ^ 55"
    by (simp only: lot_filter.select_convs double_1_10)
  have qt: "(5404319552844596 / 2 ^ 54 :: rat) =
      float_mul (of_int (py_round (float_truediv (float_truediv \<bar>positionAmt tenths_position\<bar> 2)
        (stepSize ?tenths)))) (stepSize ?tenths)"
    by (simp only: amt_t step_t half_close_quantity_of_tenths)
  have amt: "positionAmt long_position > 0" "positionAmt tenths_position > 0"
    by (simp_all add: long_position_def amt_t)
  have created: "create_order long_exchange r =
      Inr \<lparr>orderId = 21, order_type = ''MARKET'', reduceOnly = True, order_status = ''NEW''\<rparr>"
    "create_order tenths_exchange r =
      Inr \<lparr>orderId = 21, order_type = ''MARKET'', reduceOnly = True, order_status = ''NEW''\<rparr>"
    for r
    by (simp_all add: long_exchange_def tenths_exchange_def flat_exchange_def)
  have least: "minQty ?tenths \<le> 5404319552844596 / 2 ^ 54" "\<not> (0 :: rat) < 0"
    by (simp_all add: double_1_10)
  from take_profit_half_position_nearest_step
      [OF entry(1) price(1) info(1) found(1) lot(1) step(1) q refl, of fresh_monitor]
    take_profit_half_position_nearest_step
      [OF entry(2) price(1) info(1) found(1) lot(1) step(1) q0 refl, of fresh_monitor]
    take_profit_half_position_nearest_step
      [OF entry(3) price(2) info(2) found(2) lot(2) step(2) qt refl, of fresh_monitor]
  show ?thesis
    using entry price info found lot q q0 qt amt created least
    by (simp add: double_1_10 double_3_10)
qed

text \<open>
  The claim as stated, with rounding down, fails for a long position of 3.5 with step
  size 1: half of it is 1.75, rounding down gives 1, and the order placed is for 2.
\<close>

theorem take_profit_half_position_rounds_up:
  "take_profit_half_position fresh_monitor long_exchange ''XUSDT'' long_position =
     (closed_once, True, [close_request ''XUSDT'' SIDE_SELL 2]) \<and>
   positionAmt long_position = 7 / 2 \<and>
   half_rounded_down (7 / 2) 1 = 1"
proof (intro conjI)
  show "take_profit_half_position fresh_monitor long_exchange ''XUSDT'' long_position =
      (closed_once, True, [close_request ''XUSDT'' SIDE_SELL 2])"
    by (rule half_close_of_long_position)
  show "positionAmt long_position = 7 / 2"
    by (simp add: long_position_def)
  show "half_rounded_down (7 / 2) 1 = 1"
    by code_simp
qed

section \<open>C8: no endpoint can be reached\<close>

text \<open>
  Claim C8. When a run of \<^verbatim>\<open>sync_time\<close> that is not skipped (it is forced, or the last
  synchronisation is at least \<^verbatim>\<open>min_sync_interval\<close> seconds old) finds every endpoint
  unreachable, all four endpoints are asked, the exception "no endpoint can be reached"
  is raised and caught, \<^verbatim>\<open>False\<close> is returned, and the state is the old one with
  \<^verbatim>\<open>is_synced = False\<close>: \<^verbatim>\<open>time_offset\<close>, \<^verbatim>\<open>last_server_time\<close>, \<^verbatim>\<open>last_local_time\<close> and
  \<^verbatim>\<open>last_sync_time\<close> keep their values.
\<close>

theorem sync_time_all_unreachable:
  assumes "force \<or> \<not> entry_clock w - last_sync_time self < min_sync_interval self"
    and "\<forall>e \<in> set endpoints. fetch w e = Unreachable"
  shows "sync_time self force w = (self\<lparr>is_synced := False\<rparr>, Failed all_endpoints_unreachable) \<and>
         time_offset (fst (sync_time self force w)) = time_offset self \<and>
         last_server_time (fst (sync_time self force w)) = last_server_time self \<and>
         last_local_time (fst (sync_time self force w)) = last_local_time self \<and>
         last_sync_time (fst (sync_time self force w)) = last_sync_time self \<and>
         \<not> is_synced (fst (sync_time self force w)) \<and>
         endpoints_queried self force w = endpoints"
proof -
  have q: "query_endpoints (fetch w) endpoints \<lparr>binance_time = 0, network_delay = 1000, queried = []\<rparr> =
      \<lparr>binance_time = 0, network_delay = 1000, queried = endpoints\<rparr>"
    by (simp add: query_endpoints_unreachable [OF assms(2)])
  have s: "sync_time self force w = (self\<lparr>is_synced := False\<rparr>, Failed all_endpoints_unreachable)"
    using assms(1) by (auto simp: sync_time_def Let_def q)
  have e: "endpoints_queried self force w = endpoints"
    using assms(1) by (auto simp: endpoints_queried_def q)
  show ?thesis
    by (simp add: s e)
qed

theorem sync_time_all_unreachable_witness:
  "\<not> entry_clock offline_world - last_sync_time (init_time_sync 1800 10000)
       < min_sync_interval (init_time_sync 1800 10000) \<and>
   fetch offline_world ''https://api2.binance.com/api/v3/time'' = Unreachable \<and>
   sync_time (init_time_sync 1800 10000) False offline_world =
     (init_time_sync 1800 10000, Failed all_endpoints_unreachable) \<and>
   sync_time ((init_time_sync 1800 10000)\<lparr>time_offset := 5000, last_server_time := 1600000005000,
                 last_local_time := 1600000000000, last_sync_time := 1600000000, is_synced := True\<rparr>)
       True offline_world =
     ((init_time_sync 1800 10000)\<lparr>time_offset := 5000, last_server_time := 1600000005000,
                 last_local_time := 1600000000000, last_sync_time := 1600000000, is_synced := False\<rparr>,
      Failed all_endpoints_unreachable)"
proof -
  let ?s = "init_time_sync 1800 10000"
  let ?t = "?s\<lparr>time_offset := 5000, last_server_time := 1600000005000,
                 last_local_time := 1600000000000, last_sync_time := 1600000000, is_synced := True\<rparr>"
  have t: "\<not> entry_clock offline_world - last_sync_time ?s < min_sync_interval ?s"
    by (simp add: offline_world_def init_time_sync_def)
  have u: "\<forall>e \<in> set endpoints. fetch offline_world e = Unreachable"
    by (simp add: offline_world_def)
  have s: "?s\<lparr>is_synced := False\<rparr> = ?s"
    by (simp add: init_time_sync_def)
  from sync_time_all_unreachable [of False offline_world ?s] t u
    sync_time_all_unreachable [of True offline_world ?t] u s
  show ?thesis
    by (simp add: offline_world_def)
qed

section \<open>C9: consecutive timestamps\<close>

text \<open>
  Claim C9. Take two consecutive calls of \<^verbatim>\<open>get_synced_timestamp\<close> on a manager that
  started from a consistent state (a new one, or one that has synchronised) and is only
  ever given remote times after the epoch. When \<^verbatim>\<open>last_server_time\<close> and
  \<^verbatim>\<open>last_local_time\<close> are the same after the second call as after the first, and the
  readings of the local clock do not decrease, the second timestamp is at least the first,
  and each is \<^verbatim>\<open>last_server_time + (current_local_time - last_local_time)\<close> for the local
  time read in that call.
\<close>

theorem get_synced_timestamp_monotone:
  assumes first: "get_synced_timestamp self w1 = (self1, ts1)"
    and second: "get_synced_timestamp self1 w2 = (self2, ts2)"
    and no_resync: "last_server_time self2 = last_server_time self1"
      "last_local_time self2 = last_local_time self1"
    and clock: "clock w1 \<le> clock_again w1" "clock_again w1 \<le> clock w2" "clock w2 \<le> clock_again w2"
    and start: "consistent_sync self"
    and epoch: "reports_from_epoch (unsynced_sync w1)" "reports_from_epoch (stale_sync w1)"
      "reports_from_epoch (unsynced_sync w2)" "reports_from_epoch (stale_sync w2)"
  shows "ts1 \<le> ts2 \<and>
         ts1 = last_server_time self1 + (local_time_used self w1 - last_local_time self1) \<and>
         ts2 = last_server_time self2 + (local_time_used self1 w2 - last_local_time self2)"
proof -
  from first have s1: "self1 = fst (get_synced_timestamp self w1)"
    and t1: "ts1 = snd (get_synced_timestamp self w1)" by simp_all
  from second have s2: "self2 = fst (get_synced_timestamp self1 w2)"
    and t2: "ts2 = snd (get_synced_timestamp self1 w2)" by simp_all
  have c1: "consistent_sync self1"
    unfolding s1 using start epoch(1,2) by (rule get_synced_timestamp_consistent)
  have c2: "consistent_sync self2"
    unfolding s2 using c1 epoch(3,4) by (rule get_synced_timestamp_consistent)
  have v1: "ts1 = last_server_time self1 + (local_time_used self w1 - last_local_time self1)"
    unfolding t1 s1 using c1 [unfolded s1] by (rule get_synced_timestamp_value)
  have v2: "ts2 = last_server_time self2 + (local_time_used self1 w2 - last_local_time self2)"
    unfolding t2 s2 using c2 [unfolded s2] by (rule get_synced_timestamp_value)
  have m: "py_ms (clock w1) \<le> py_ms (clock_again w1)" "py_ms (clock_again w1) \<le> py_ms (clock w2)"
    "py_ms (clock w2) \<le> py_ms (clock_again w2)"
    using clock by (simp_all add: py_ms_mono)
  have "local_time_used self w1 \<le> local_time_used self1 w2"
    using local_time_used_cases [of self w1] local_time_used_cases [of self1 w2] m by linarith
  with v1 v2 no_resync show ?thesis by simp
qed

theorem get_synced_timestamp_monotone_witness:
  "get_synced_timestamp (init_time_sync 1800 10000) first_call_world = (synced_once, 1700000005980) \<and>
   get_synced_timestamp synced_once second_call_world = (synced_once, 1700000006980) \<and>
   clock first_call_world \<le> clock_again first_call_world \<and>
   clock_again first_call_world \<le> clock second_call_world \<and>
   clock second_call_world \<le> clock_again second_call_world \<and>
   consistent_sync (init_time_sync 1800 10000) \<and>
   reports_from_epoch quick_world \<and> reports_from_epoch offline_world \<and>
   (1700000005980 :: int) \<le> 1700000006980 \<and>
   local_time_used (init_time_sync 1800 10000) first_call_world = 1700000001000 \<and>
   local_time_used synced_once second_call_world = 1700000002000"
proof -
  have a: "get_synced_timestamp (init_time_sync 1800 10000) first_call_world = (synced_once, 1700000005980)"
    by code_simp
  have b: "get_synced_timestamp synced_once second_call_world = (synced_once, 1700000006980)"
    by code_simp
  have c: "clock first_call_world \<le> clock_again first_call_world"
    "clock_again first_call_world \<le> clock second_call_world"
    "clock second_call_world \<le> clock_again second_call_world"
    by (simp_all add: first_call_world_def second_call_world_def)
  have s: "consistent_sync (init_time_sync 1800 10000)"
    by (simp add: consistent_sync_def init_time_sync_def)
  have q: "reports_from_epoch quick_world"
    by code_simp
  have f: "reports_from_epoch offline_world"
    by code_simp
  have u: "unsynced_sync first_call_world = quick_world" "stale_sync first_call_world = offline_world"
    "unsynced_sync second_call_world = offline_world" "stale_sync second_call_world = offline_world"
    by (simp_all add: first_call_world_def second_call_world_def)
  have l: "local_time_used (init_time_sync 1800 10000) first_call_world = 1700000001000"
    "local_time_used synced_once second_call_world = 1700000002000"
    by code_simp+
  from get_synced_timestamp_monotone [OF a b refl refl c s, unfolded u, OF q f f f]
  show ?thesis
    using a b c s q f l by simp
qed

section \<open>C10: three clock-skew failures raise the generic error\<close>

text \<open>
  Claim C10. When every one of the \<^verbatim>\<open>max_retries\<close> attempts fails with an error whose code
  is \<open>1021\<close>, each attempt resynchronises the clock, sleeps and continues without
  assigning \<^verbatim>\<open>last_exception\<close>; after the loop \<^verbatim>\<open>last_exception\<close> is still \<^verbatim>\<open>None\<close>, and the
  generic exception of the last line is raised, which is none of the \<open>1021\<close> errors.
\<close>

theorem safe_request_all_1021_raises_generic:
  "(\<forall>a \<in> set [0..<max_retries self]. request_func a = Raises (err a) \<and> is_time_sync_error (err a)) \<longrightarrow>
     safe_request self request_func =
       (Inl unknown_request_error,
        \<lparr>attempts = max_retries self, resyncs = max_retries self, sleeps = max_retries self,
         last_exception = None\<rparr>) \<and>
     (\<forall>a \<in> set [0..<max_retries self]. err a \<noteq> unknown_request_error)"
proof (intro impI conjI)
  assume h: "\<forall>a \<in> set [0..<max_retries self]. request_func a = Raises (err a) \<and> is_time_sync_error (err a)"
  then have all: "\<forall>a \<in> set [0..<max_retries self].
      request_func a = Raises (err a) \<and> is_time_sync_error (err a) \<and> \<not> is_no_retry (err a)"
    using time_sync_error_not_no_retry by blast
  show "safe_request self request_func =
       (Inl unknown_request_error,
        \<lparr>attempts = max_retries self, resyncs = max_retries self, sleeps = max_retries self,
         last_exception = None\<rparr>)"
    unfolding safe_request_def attempt_loop_all_time_sync [OF all]
    by (simp add: no_effects_def)
  show "\<forall>a \<in> set [0..<max_retries self]. err a \<noteq> unknown_request_error"
  proof
    fix a assume "a \<in> set [0..<max_retries self]"
    with h have "exn_code (err a) = Some 1021"
      by (simp add: is_time_sync_error_def)
    moreover have "exn_code unknown_request_error = None"
      by (simp add: unknown_request_error_def)
    ultimately show "err a \<noteq> unknown_request_error"
      by auto
  qed
qed

theorem safe_request_all_1021_raises_generic_witness:
  "safe_request init_config
     (\<lambda>a. Raises (Exn (Some 1021) ''Timestamp for this request is outside of the recvWindow.'') :: unit outcome) =
     (Inl unknown_request_error,
      \<lparr>attempts = 3, resyncs = 3, sleeps = 3, last_exception = None\<rparr>) \<and>
   Exn (Some 1021) ''Timestamp for this request is outside of the recvWindow.'' \<noteq> unknown_request_error"
proof -
  let ?e = "Exn (Some 1021) ''Timestamp for this request is outside of the recvWindow.''"
  let ?f = "\<lambda>a::nat. Raises ?e :: unit outcome"
  have m: "max_retries init_config = 3"
    by (simp add: init_config_def)
  have h: "\<forall>a \<in> set [0..<max_retries init_config]. ?f a = Raises ((\<lambda>a. ?e) a) \<and> is_time_sync_error ((\<lambda>a. ?e) a)"
    by (simp add: is_time_sync_error_def)
  have ex: "\<exists>a::nat. a < 3"
    by (rule exI [of _ 0]) simp
  from safe_request_all_1021_raises_generic [of init_config ?f "\<lambda>a. ?e"] h ex
  show ?thesis
    by (simp add: m)
qed

end
